theory Spec2Isabelle
  imports Complex_Main
begin

section \<open>Numbers and errors of the analyzer script\<close>

text \<open>
  \<^verbatim>\<open>chiller_plant_analyzer.py\<close> is a single script: it reads scalar inputs from form
  widgets, evaluates closed formulas section by section, shows the results and builds a
  one-row export table. Every quantity is a Python \<^verbatim>\<open>float\<close>, an IEEE binary64 number.

  The chiller, pump, tower and COP-curve sections only evaluate a formula and hand the
  value on. They are read in exact real arithmetic: the value of the script and the value
  of the model differ by the rounding of that value and by nothing else.

  Two places turn a value into decimal digits: \<^verbatim>\<open>calc_iplv\<close> ends with
  \<^verbatim>\<open>round(..., 3)\<close>, and the flow-rate message shows \<^verbatim>\<open>round(flow_rate, 3)\<close>. There a
  rounding error in the last binary place can change the third decimal, and a sum that is
  zero over the reals need not be zero in the machine. These two computations are
  therefore modelled in binary64, operation by operation (\<open>fl64\<close> below).

  In both readings the one way a formula of the script can fail is modelled: Python's
  \<^verbatim>\<open>/\<close> raises \<^verbatim>\<open>ZeroDivisionError\<close> on a zero divisor, where HOL's \<open>x / 0\<close> is \<open>0\<close>.
  In the exact sections a division by a non-zero literal (\<^verbatim>\<open>/ 1000\<close>, \<^verbatim>\<open>/ 3.412\<close>,
  \<^verbatim>\<open>/ 100\<close>) cannot raise and is written with HOL's division; every other division goes
  through \<open>py_div\<close>.
\<close>

datatype py_error = ZeroDivisionError

definition py_div :: "real \<Rightarrow> real \<Rightarrow> py_error + real" where
  "py_div a b = (if b = 0 then Inl ZeroDivisionError else Inr (a / b))"

text \<open>Sequencing: an exception raised by a step skips everything after it.\<close>

definition and_then :: "py_error + 'a \<Rightarrow> ('a \<Rightarrow> py_error + 'b) \<Rightarrow> py_error + 'b" where
  "and_then r k = (case r of Inl e \<Rightarrow> Inl e | Inr v \<Rightarrow> k v)"

text \<open>
  Python's \<^verbatim>\<open>round(x, ndigits)\<close>: the closest multiple of \<open>10\<close> to the power
  \<open>- ndigits\<close>, a tie going to the even multiple.
\<close>

definition round_half_even :: "real \<Rightarrow> int" where
  "round_half_even x =
     (let f = \<lfloor>x\<rfloor>; d = x - of_int f
      in if d < 1 / 2 then f
         else if 1 / 2 < d then f + 1
         else if even f then f else f + 1)"

definition py_round :: "real \<Rightarrow> nat \<Rightarrow> real" where
  "py_round x ndigits = of_int (round_half_even (x * 10 ^ ndigits)) / 10 ^ ndigits"

subsection \<open>Binary64\<close>

text \<open>
  \<open>fl64 x\<close> is the double nearest to the real \<open>x\<close>, a tie going to the even significand:
  with \<open>2\<close> to the power \<open>e\<close> the largest power of two not above \<open>\<bar>x\<bar>\<close>, the doubles around
  \<open>x\<close> are the multiples of \<open>2\<close> to the power \<open>e - 52\<close>. A literal such as \<^verbatim>\<open>0.42\<close> denotes
  \<open>fl64 0.42\<close>, and every arithmetic operation on doubles returns \<open>fl64\<close> of the exact
  result. The exponent is not bounded: overflow to infinity and the subnormal range,
  below \<open>2\<close> to the power \<open>- 1022\<close>, are not modelled.
\<close>

definition fl64 :: "real \<Rightarrow> real" where
  "fl64 x =
     (if x = 0 then 0
      else let q = 2 powr of_int (\<lfloor>log 2 \<bar>x\<bar>\<rfloor> - 52)
           in of_int (round_half_even (x / q)) * q)"

definition float_div :: "real \<Rightarrow> real \<Rightarrow> py_error + real" where
  "float_div a b = (if b = 0 then Inl ZeroDivisionError else Inr (fl64 (a / b)))"

text \<open>
  \<^verbatim>\<open>round(x, ndigits)\<close> on a double rounds the exact value of \<open>x\<close> to the decimal grid and
  returns the double nearest to that decimal.
\<close>

definition round_float :: "real \<Rightarrow> nat \<Rightarrow> real" where
  "round_float x ndigits = fl64 (py_round x ndigits)"

section \<open>Unit system\<close>

text \<open>The sidebar radio button offers exactly the two strings \<^verbatim>\<open>"SI"\<close> and \<^verbatim>\<open>"I-P"\<close>.\<close>

datatype unit_system = SI | IP

section \<open>Chiller performance\<close>

text \<open>
  \<^verbatim>\<open>
  if unit_system == "I-P":
      kw_per_ton = power_input / cooling_capacity
      eer = (cooling_capacity * 12000) / (power_input * 1000)
      cop = eer / 3.412
  else:
      cop = cooling_capacity / power_input
      eer = cop * 3.412
      kw_per_ton = 3.5 / cop
  \<close>
\<close>

record chiller =
  cop :: real
  eer :: real
  kw_per_ton :: real

definition chiller_performance :: "unit_system \<Rightarrow> real \<Rightarrow> real \<Rightarrow> py_error + chiller" where
  "chiller_performance u cooling_capacity power_input =
     (if u = IP then
        and_then (py_div power_input cooling_capacity) (\<lambda>k.
        and_then (py_div (cooling_capacity * 12000) (power_input * 1000)) (\<lambda>e.
        Inr \<lparr>cop = e / 3.412, eer = e, kw_per_ton = k\<rparr>))
      else
        and_then (py_div cooling_capacity power_input) (\<lambda>c.
        and_then (py_div 3.5 c) (\<lambda>k.
        Inr \<lparr>cop = c, eer = c * 3.412, kw_per_ton = k\<rparr>)))"

section \<open>Chilled water pump\<close>

text \<open>
  \<^verbatim>\<open>
  density = 1000 if unit_system == "SI" else 62.4 * 1.3558
  g = 9.81 if unit_system == "SI" else 32.174
  hydraulic_power = flow * head * density * g / 1000
  efficiency = (hydraulic_power / pump_power) * 100
  \<close>
\<close>

definition density :: "unit_system \<Rightarrow> real" where
  "density u = (if u = SI then 1000 else 62.4 * 1.3558)"

definition g :: "unit_system \<Rightarrow> real" where
  "g u = (if u = SI then 9.81 else 32.174)"

record pump =
  hydraulic_power :: real
  efficiency :: real

definition pump_performance :: "unit_system \<Rightarrow> real \<Rightarrow> real \<Rightarrow> real \<Rightarrow> py_error + pump" where
  "pump_performance u flow head pump_power =
     (let hp = flow * head * density u * g u / 1000
      in and_then (py_div hp pump_power) (\<lambda>q.
         Inr \<lparr>hydraulic_power = hp, efficiency = q * 100\<rparr>))"

section \<open>Cooling tower\<close>

text \<open>
  \<^verbatim>\<open>
  range = cw_in - cw_out
  approach = cw_out - wet_bulb
  effectiveness = range / (range + approach)
  \<close>
  The script keeps \<^verbatim>\<open>effectiveness\<close> as a fraction; the percentage
  \<^verbatim>\<open>effectiveness * 100\<close> is formed where it is shown and where it is exported.
\<close>

record tower =
  range_cw :: real
  approach :: real
  effectiveness :: real

definition tower_performance :: "real \<Rightarrow> real \<Rightarrow> real \<Rightarrow> py_error + tower" where
  "tower_performance cw_in cw_out wet_bulb =
     (let r = cw_in - cw_out; a = cw_out - wet_bulb
      in and_then (py_div r (r + a)) (\<lambda>e.
         Inr \<lparr>range_cw = r, approach = a, effectiveness = e\<rparr>))"

section \<open>Part-load value\<close>

text \<open>
  \<^verbatim>\<open>
  def calc_iplv(values):
      weights = [0.01, 0.42, 0.45, 0.12]
      return round(1 / sum(w / e for w, e in zip(weights, values)), 3)
  \<close>
  \<^verbatim>\<open>sum\<close> pulls the quotients from the generator one at a time, from the left; the first
  quotient with a zero divisor raises and ends the call. Adding cannot fail, so the result
  is the same as forming all quotients first (\<open>quotients\<close>) and adding them afterwards
  (\<open>float_sum\<close>).

  How \<^verbatim>\<open>sum\<close> adds doubles depends on the interpreter. Before CPython 3.12 it adds them
  one after the other. From 3.12 on it also accumulates the rounding error of each
  addition in a second double \<open>c\<close> (Neumaier's compensated summation) and adds \<open>c\<close> at the
  end unless it is zero. Both are modelled; the start value is the integer \<open>0\<close>, to which
  the first quotient is added without error either way.
\<close>

definition weights :: "real list" where
  "weights = [fl64 0.01, fl64 0.42, fl64 0.45, fl64 0.12]"

fun quotients :: "(real \<times> real) list \<Rightarrow> py_error + real list" where
  "quotients [] = Inr []"
| "quotients ((w, e) # rest) =
     and_then (float_div w e) (\<lambda>q.
     and_then (quotients rest) (\<lambda>qs.
     Inr (q # qs)))"

datatype sum_impl = Sequential | Compensated

fun sum_step :: "sum_impl \<Rightarrow> real \<times> real \<Rightarrow> real \<Rightarrow> real \<times> real" where
  "sum_step Sequential (s, c) x = (fl64 (s + x), c)"
| "sum_step Compensated (s, c) x =
     (let t = fl64 (s + x)
      in if \<bar>x\<bar> \<le> \<bar>s\<bar> then (t, fl64 (c + fl64 (fl64 (s - t) + x)))
         else (t, fl64 (c + fl64 (fl64 (x - t) + s))))"

definition float_sum :: "sum_impl \<Rightarrow> real list \<Rightarrow> real" where
  "float_sum k qs =
     (case foldl (sum_step k) (0, 0) qs of (s, c) \<Rightarrow> if c \<noteq> 0 then fl64 (s + c) else s)"

definition calc_iplv :: "sum_impl \<Rightarrow> real list \<Rightarrow> py_error + real" where
  "calc_iplv k vs =
     and_then (quotients (zip weights vs)) (\<lambda>qs.
     and_then (float_div 1 (float_sum k qs)) (\<lambda>r.
     Inr (round_float r 3)))"

section \<open>Chilled water flow optimization\<close>

text \<open>
  \<^verbatim>\<open>
  cp = 4.187
  density_si = 997
  flow_rate = capacity_kw / (cp * density_si * delta_T)
  \<close>
  Neither constant depends on the unit system that was selected. \<^verbatim>\<open>density_si\<close> is an
  integer, which is converted to a double without error; the product is formed from the
  left.
\<close>

definition cp :: real where
  "cp = fl64 4.187"

definition density_si :: real where
  "density_si = 997"

definition flow_optimization :: "real \<Rightarrow> real \<Rightarrow> py_error + real" where
  "flow_optimization capacity_kw delta_T =
     float_div capacity_kw (fl64 (fl64 (cp * density_si) * delta_T))"

section \<open>COP against load\<close>

text \<open>
  \<^verbatim>\<open>
  loads = [25, 50, 75, 100]
  cop_values = [cop * (1 - 0.1 * (1 - l / 100)) for l in loads]
  \<close>
  The loads are Python integers, and \<^verbatim>\<open>l / 100\<close> is true division.
\<close>

definition loads :: "int list" where
  "loads = [25, 50, 75, 100]"

definition cop_values :: "real \<Rightarrow> int list \<Rightarrow> real list" where
  "cop_values c ls = map (\<lambda>l. c * (1 - 0.1 * (1 - of_int l / 100))) ls"

section \<open>The script as a whole\<close>

text \<open>
  The inputs are the values of the widgets, named as the script names them, and the way
  the interpreter adds doubles in \<^verbatim>\<open>sum\<close>. The outputs are the two numbers that reach a
  message after a rounding to three decimals (\<open>shown\<close>: the part-load value, which
  \<^verbatim>\<open>calc_iplv\<close> has rounded, and \<^verbatim>\<open>round(flow_rate, 3)\<close>), the points of the chart and the
  single row of the export table (\<open>data\<close>), whose columns are, in order: Cooling Capacity,
  Power Input, COP, EER, kW/Ton, Pump Efficiency (percent), Tower Range, Tower Approach,
  Tower Effectiveness (percent), IPLV/NPLV (kW/Ton), Chilled Water Delta-T, Flow Rate.
  The other messages show the chiller, pump and tower values rounded to two decimals
  for display; they are not part of the model. The sections run in the order of the
  script; the first exception ends the run, and nothing after it is computed. The model
  takes any real number for every input; in the page itself the slider keeps \<open>delta_T\<close>
  between \<open>4\<close> and \<open>16\<close>.
\<close>

record inputs =
  unit_system :: unit_system
  cooling_capacity :: real
  power_input :: real
  flow :: real
  head :: real
  pump_power :: real
  cw_in :: real
  cw_out :: real
  wet_bulb :: real
  kw_100 :: real
  kw_75 :: real
  kw_50 :: real
  kw_25 :: real
  capacity_kw :: real
  delta_T :: real

record messages =
  shown_iplv :: real
  shown_flow_rate :: real

record report =
  Cooling_Capacity :: real
  Power_Input :: real
  COP :: real
  EER :: real
  kW_Ton :: real
  Pump_Efficiency :: real
  Tower_Range :: real
  Tower_Approach :: real
  Tower_Effectiveness :: real
  IPLV_NPLV :: real
  Chilled_Water_dT :: real
  Flow_Rate :: real

record outputs =
  shown :: messages
  chart :: "(int \<times> real) list"
  data :: report

definition analyzer :: "sum_impl \<Rightarrow> inputs \<Rightarrow> py_error + outputs" where
  "analyzer k i =
     and_then (chiller_performance (unit_system i) (cooling_capacity i) (power_input i)) (\<lambda>ch.
     and_then (pump_performance (unit_system i) (flow i) (head i) (pump_power i)) (\<lambda>pm.
     and_then (tower_performance (cw_in i) (cw_out i) (wet_bulb i)) (\<lambda>tw.
     and_then (calc_iplv k [kw_100 i, kw_75 i, kw_50 i, kw_25 i]) (\<lambda>iplv.
     and_then (flow_optimization (capacity_kw i) (delta_T i)) (\<lambda>flow_rate.
     Inr \<lparr>shown = \<lparr>shown_iplv = iplv,
                    shown_flow_rate = round_float flow_rate 3\<rparr>,
          chart = zip loads (cop_values (cop ch) loads),
          data = \<lparr>Cooling_Capacity = cooling_capacity i,
                   Power_Input = power_input i,
                   COP = cop ch,
                   EER = eer ch,
                   kW_Ton = kw_per_ton ch,
                   Pump_Efficiency = efficiency pm,
                   Tower_Range = range_cw tw,
                   Tower_Approach = approach tw,
                   Tower_Effectiveness = effectiveness tw * 100,
                   IPLV_NPLV = iplv,
                   Chilled_Water_dT = delta_T i,
                   Flow_Rate = flow_rate\<rparr>\<rparr>)))))"

text \<open>
  The values the widgets hold when the page is first loaded; those that are not doubles
  as written are the doubles their literals denote.
\<close>

definition default_inputs :: inputs where
  "default_inputs =
     \<lparr>unit_system = SI, cooling_capacity = 100, power_input = 60,
      flow = fl64 0.02, head = 30, pump_power = 6,
      cw_in = 35, cw_out = 30, wet_bulb = 28,
      kw_100 = fl64 0.6, kw_75 = fl64 0.65, kw_50 = fl64 0.72, kw_25 = fl64 0.85,
      capacity_kw = 1000, delta_T = 6\<rparr>"

section \<open>Facts about the building blocks\<close>

subsection \<open>Division and sequencing\<close>

lemma py_div_zero [simp]: "py_div a 0 = Inl ZeroDivisionError"
  by (simp add: py_div_def)

lemma py_div_nonzero: "b \<noteq> 0 \<Longrightarrow> py_div a b = Inr (a / b)"
  by (simp add: py_div_def)

lemma float_div_zero [simp]: "float_div a 0 = Inl ZeroDivisionError"
  by (simp add: float_div_def)

lemma float_div_nonzero: "b \<noteq> 0 \<Longrightarrow> float_div a b = Inr (fl64 (a / b))"
  by (simp add: float_div_def)

lemma and_then_Inl [simp]: "and_then (Inl e) k = Inl e"
  by (simp add: and_then_def)

lemma and_then_Inr [simp]: "and_then (Inr v) k = k v"
  by (simp add: and_then_def)

lemma only_error: "(r = Inl ZeroDivisionError) = isl r"
  by (cases r) (auto intro: py_error.exhaust)

lemma and_then_fails:
  "isl (and_then r k) = (isl r \<or> (\<exists>v. r = Inr v \<and> isl (k v)))"
  by (cases r) simp_all

subsection \<open>Rounding to decimals\<close>

lemma round_half_even_close: "\<bar>of_int (round_half_even x) - x\<bar> \<le> 1 / 2"
  unfolding round_half_even_def Let_def
  by (auto; linarith)

lemma py_round_close: "\<bar>py_round x n - x\<bar> \<le> 1 / (2 * 10 ^ n)"
proof -
  let ?y = "x * 10 ^ n"
  have "py_round x n - x = (of_int (round_half_even ?y) - ?y) / 10 ^ n"
    by (simp add: py_round_def diff_divide_distrib)
  then have "\<bar>py_round x n - x\<bar> = \<bar>of_int (round_half_even ?y) - ?y\<bar> / 10 ^ n"
    by (simp add: abs_divide)
  also have "\<dots> \<le> (1 / 2) / 10 ^ n"
    by (rule divide_right_mono [OF round_half_even_close]) simp
  finally show ?thesis
    by simp
qed

lemma py_round_grid: "\<exists>k::int. py_round x n = of_int k / 10 ^ n"
  by (auto simp: py_round_def)

subsection \<open>Rounding to binary64\<close>

lemma fl64_zero [simp]: "fl64 0 = 0"
  by (simp add: fl64_def)

lemma fl64_quantum:
  assumes "x \<noteq> 0"
  defines "q \<equiv> 2 powr of_int (\<lfloor>log 2 \<bar>x\<bar>\<rfloor> - 52)"
  shows "0 < q" and "q * 2 ^ 52 \<le> \<bar>x\<bar>" and "fl64 x = of_int (round_half_even (x / q)) * q"
proof -
  show "0 < q" by (simp add: q_def)
  have "2 powr of_int \<lfloor>log 2 \<bar>x\<bar>\<rfloor> \<le> \<bar>x\<bar>"
    using assms(1) floor_log_eq_powr_iff [of "\<bar>x\<bar>" 2 "\<lfloor>log 2 \<bar>x\<bar>\<rfloor>"] by simp
  moreover have "2 powr of_int \<lfloor>log 2 \<bar>x\<bar>\<rfloor> = q * 2 ^ 52"
    by (simp add: q_def powr_diff)
  ultimately show "q * 2 ^ 52 \<le> \<bar>x\<bar>" by simp
  show "fl64 x = of_int (round_half_even (x / q)) * q"
    using assms(1) by (simp add: fl64_def q_def Let_def)
qed

text \<open>The relative error of one rounding is at most \<open>2\<close> to the power \<open>- 53\<close>.\<close>

lemma fl64_error: "\<bar>fl64 x - x\<bar> \<le> \<bar>x\<bar> / 2 ^ 53"
proof (cases "x = 0")
  case True
  then show ?thesis by simp
next
  case False
  define q :: real where "q = 2 powr of_int (\<lfloor>log 2 \<bar>x\<bar>\<rfloor> - 52)"
  from fl64_quantum [OF False] have q: "0 < q" "q * 2 ^ 52 \<le> \<bar>x\<bar>"
    and fl: "fl64 x = of_int (round_half_even (x / q)) * q"
    by (simp_all add: q_def)
  have "fl64 x - x = (of_int (round_half_even (x / q)) - x / q) * q"
    using q(1) by (simp add: fl left_diff_distrib)
  then have "\<bar>fl64 x - x\<bar> = \<bar>of_int (round_half_even (x / q)) - x / q\<bar> * q"
    using q(1) by (simp add: abs_mult)
  also have "\<dots> \<le> (1 / 2) * q"
    using q(1) by (intro mult_right_mono round_half_even_close) simp
  also have "\<dots> \<le> \<bar>x\<bar> / 2 ^ 53"
    using q(2) by simp
  finally show ?thesis .
qed

lemma fl64_eq_0_iff [simp]: "fl64 x = 0 \<longleftrightarrow> x = 0"
proof
  assume "fl64 x = 0"
  with fl64_error [of x] have "\<bar>x\<bar> \<le> \<bar>x\<bar> / 2 ^ 53" by simp
  then show "x = 0" by simp
qed simp

text \<open>
  Evaluation at a given number: once the number is scaled by a power of two into the
  range of the \<open>53\<close>-bit integers, rounding it there is all that is left.
\<close>

lemma fl64_up:
  fixes k :: nat
  assumes "2 ^ 52 \<le> \<bar>x\<bar> * 2 ^ k" and "\<bar>x\<bar> * 2 ^ k < 2 ^ 53"
  shows "fl64 x = of_int (round_half_even (x * 2 ^ k)) / 2 ^ k"
proof -
  from assms(1) have nz: "x \<noteq> 0" by auto
  have p1: "(2::real) powr of_int (52 - int k) = 2 ^ 52 / 2 ^ k"
    by (simp add: powr_diff powr_realpow)
  have p2: "(2::real) powr of_int (52 - int k + 1) = 2 ^ 53 / 2 ^ k"
    by (simp add: powr_diff powr_add powr_realpow)
  have lo: "2 powr of_int (52 - int k) \<le> \<bar>x\<bar>"
    unfolding p1 using assms(1) by (simp add: divide_le_eq)
  have hi: "\<bar>x\<bar> < 2 powr of_int (52 - int k + 1)"
    unfolding p2 using assms(2) by (simp add: less_divide_eq)
  have "\<lfloor>log 2 \<bar>x\<bar>\<rfloor> = 52 - int k"
    using nz lo hi by (subst floor_log_eq_powr_iff) simp_all
  moreover have "(2::real) powr of_int (52 - int k - 52) = 1 / 2 ^ k"
    by (simp add: powr_minus_divide powr_realpow)
  ultimately show ?thesis
    using nz by (simp add: fl64_def Let_def)
qed

lemma fl64_down:
  fixes k :: nat
  assumes "2 ^ 52 \<le> \<bar>x\<bar> / 2 ^ k" and "\<bar>x\<bar> / 2 ^ k < 2 ^ 53"
  shows "fl64 x = of_int (round_half_even (x / 2 ^ k)) * 2 ^ k"
proof -
  from assms(1) have nz: "x \<noteq> 0" by auto
  have "(2::real) powr of_int (52 + int k) = 2 ^ 52 * 2 ^ k"
    by (simp add: powr_add powr_realpow)
  moreover have "(2::real) powr of_int (52 + int k + 1) = 2 ^ 53 * 2 ^ k"
    by (simp add: powr_add powr_realpow)
  ultimately have "\<lfloor>log 2 \<bar>x\<bar>\<rfloor> = 52 + int k"
    using nz assms by (subst floor_log_eq_powr_iff) (simp_all add: field_simps)
  moreover have "(2::real) powr of_int (52 + int k - 52) = 2 ^ k"
    by (simp add: powr_realpow)
  ultimately show ?thesis
    using nz by (simp add: fl64_def Let_def)
qed

subsection \<open>The quotients inside \<open>calc_iplv\<close>\<close>


lemma quotients_nonzero:
  "\<forall>p\<in>set ps. snd p \<noteq> 0 \<Longrightarrow> quotients ps = Inr (map (\<lambda>p. fl64 (fst p / snd p)) ps)"
  by (induction ps) (auto simp: float_div_nonzero)


lemma calc_iplv_4:
  "calc_iplv k [v1, v2, v3, v4] =
     (let s = float_sum k [fl64 (fl64 0.01 / v1), fl64 (fl64 0.42 / v2),
                           fl64 (fl64 0.45 / v3), fl64 (fl64 0.12 / v4)]
      in if v1 = 0 \<or> v2 = 0 \<or> v3 = 0 \<or> v4 = 0 \<or> s = 0 then Inl ZeroDivisionError
         else Inr (round_float (fl64 (1 / s)) 3))"
  by (simp add: calc_iplv_def weights_def float_div_def Let_def)

lemma float_sum_Sequential_4:
  "float_sum Sequential [a, b, c, d] = fl64 (fl64 (fl64 (fl64 (0 + a) + b) + c) + d)"
  by (simp add: float_sum_def)

subsection \<open>When a section raises\<close>

lemma analyzer_fails:
  "analyzer k i = Inl ZeroDivisionError \<longleftrightarrow>
     isl (chiller_performance (unit_system i) (cooling_capacity i) (power_input i)) \<or>
     isl (pump_performance (unit_system i) (flow i) (head i) (pump_power i)) \<or>
     isl (tower_performance (cw_in i) (cw_out i) (wet_bulb i)) \<or>
     isl (calc_iplv k [kw_100 i, kw_75 i, kw_50 i, kw_25 i]) \<or>
     isl (flow_optimization (capacity_kw i) (delta_T i))"
  unfolding only_error analyzer_def
  by (auto simp: and_then_def split: sum.splits)

lemma analyzer_flow:
  assumes "analyzer k i = Inr out"
  shows "flow_optimization (capacity_kw i) (delta_T i) = Inr (Flow_Rate (data out))"
    and "shown_flow_rate (shown out) = round_float (Flow_Rate (data out)) 3"
    and "calc_iplv k [kw_100 i, kw_75 i, kw_50 i, kw_25 i] = Inr (IPLV_NPLV (data out))"
    and "shown_iplv (shown out) = IPLV_NPLV (data out)"
  using assms by (auto simp: analyzer_def and_then_def split: sum.splits)

lemma chiller_fails:
  "isl (chiller_performance u cc pw) \<longleftrightarrow> cc = 0 \<or> pw = 0"
  by (cases u) (auto simp: chiller_performance_def py_div_def)

lemma pump_fails: "isl (pump_performance u fl hh pp) \<longleftrightarrow> pp = 0"
  by (auto simp: pump_performance_def py_div_def Let_def)

lemma tower_fails: "isl (tower_performance ci co wb) \<longleftrightarrow> ci - wb = 0"
  by (auto simp: tower_performance_def py_div_def Let_def)

lemma flow_denominator: "fl64 (fl64 (cp * density_si) * dt) = 0 \<longleftrightarrow> dt = 0"
  by (simp add: cp_def density_si_def)

lemma flow_fails: "isl (flow_optimization cap dt) \<longleftrightarrow> dt = 0"
  by (simp add: flow_optimization_def float_div_def cp_def density_si_def)

subsection \<open>Runs of the binary64 model\<close>

text \<open>
  The values below were computed by hand from the definitions and are what a CPython
  interpreter prints for the same calls. They include inputs on which exact real
  arithmetic gives another third decimal (\<open>0.438\<close>, \<open>0.988\<close>, \<open>0.002\<close> and \<open>0.008\<close>), and an
  input whose weighted sum is zero over the reals: there the machine sum is a last-place
  remainder, and the call returns a huge number instead of raising.
\<close>

lemma iplv_default_Sequential:
  "calc_iplv Sequential [fl64 0.6, fl64 0.65, fl64 0.72, fl64 0.85] = Inr (fl64 0.7)"
proof -
  have f1: "fl64 (3 / 5) = 5404319552844595 / 9007199254740992"
    by (simp add: fl64_up [where k = 53] round_half_even_def Let_def)
  have f2: "fl64 (13 / 20) = 5854679515581645 / 9007199254740992"
    by (simp add: fl64_up [where k = 53] round_half_even_def Let_def)
  have f3: "fl64 (18 / 25) = 3242591731706757 / 4503599627370496"
    by (simp add: fl64_up [where k = 53] round_half_even_def Let_def)
  have f4: "fl64 (17 / 20) = 7656119366529843 / 9007199254740992"
    by (simp add: fl64_up [where k = 53] round_half_even_def Let_def)
  have f5: "fl64 (7 / 10) = 3152519739159347 / 4503599627370496"
    by (simp add: fl64_up [where k = 53] round_half_even_def Let_def)
  have f6: "fl64 (1 / 100) = 5764607523034235 / 576460752303423488"
    by (simp add: fl64_up [where k = 59] round_half_even_def Let_def)
  have f7: "fl64 (21 / 50) = 7566047373982433 / 18014398509481984"
    by (simp add: fl64_up [where k = 54] round_half_even_def Let_def)
  have f8: "fl64 (9 / 20) = 8106479329266893 / 18014398509481984"
    by (simp add: fl64_up [where k = 54] round_half_even_def Let_def)
  have f9: "fl64 (3 / 25) = 1080863910568919 / 9007199254740992"
    by (simp add: fl64_up [where k = 56] round_half_even_def Let_def)
  have f10: "fl64 (1152921504606847 / 69175290276410816) = 4803839602528529 / 288230376151711744"
    by (simp add: fl64_up [where k = 58] round_half_even_def Let_def)
  have f11: "fl64 (1080863910568919 / 1672765575880470) = 1455009110381237 / 2251799813685248"
    by (simp add: fl64_up [where k = 53] round_half_even_def Let_def)
  have f12: "fl64 (8106479329266893 / 12970366926827028) = 5 / 8"
    by (simp add: fl64_up [where k = 53] round_half_even_def Let_def)
  have f13: "fl64 (1080863910568919 / 7656119366529843) = 2543209201338633 / 18014398509481984"
    by (simp add: fl64_up [where k = 55] round_half_even_def Let_def)
  have f14: "fl64 (4803839602528529 / 288230376151711744) = 4803839602528529 / 288230376151711744"
    by (simp add: fl64_up [where k = 58] round_half_even_def Let_def)
  have f15: "fl64 (191045005731326865 / 288230376151711744) = 5970156429103965 / 9007199254740992"
    by (simp add: fl64_up [where k = 53] round_half_even_def Let_def)
  have f16: "fl64 (11599655963317085 / 9007199254740992) = 2899913990829271 / 2251799813685248"
    by (simp add: fl64_up [where k = 52] round_half_even_def Let_def)
  have f17: "fl64 (25742521127972801 / 18014398509481984) = 402226892624575 / 281474976710656"
    by (simp add: fl64_up [where k = 52] round_half_even_def Let_def)
  have f18: "fl64 (281474976710656 / 402226892624575) = 6303161839610817 / 9007199254740992"
    by (simp add: fl64_up [where k = 53] round_half_even_def Let_def)
  show ?thesis
    by (simp add: calc_iplv_4 float_sum_def round_float_def py_round_def round_half_even_def Let_def
        f1 f2 f3 f4 f5 f6 f7 f8 f9 f10 f11 f12 f13 f14 f15 f16 f17 f18)
qed

lemma iplv_1248_Sequential:
  "calc_iplv Sequential [1, 2, 4, 8] = Inr (fl64 2.878)"
proof -
  have f1: "fl64 (1) = 1"
    by (simp add: fl64_up [where k = 52] round_half_even_def Let_def)
  have f2: "fl64 (2) = 2"
    by (simp add: fl64_up [where k = 51] round_half_even_def Let_def)
  have f3: "fl64 (4) = 4"
    by (simp add: fl64_up [where k = 50] round_half_even_def Let_def)
  have f4: "fl64 (8) = 8"
    by (simp add: fl64_up [where k = 49] round_half_even_def Let_def)
  have f5: "fl64 (1439 / 500) = 202521245743317 / 70368744177664"
    by (simp add: fl64_up [where k = 51] round_half_even_def Let_def)
  have f6: "fl64 (1 / 100) = 5764607523034235 / 576460752303423488"
    by (simp add: fl64_up [where k = 59] round_half_even_def Let_def)
  have f7: "fl64 (21 / 50) = 7566047373982433 / 18014398509481984"
    by (simp add: fl64_up [where k = 54] round_half_even_def Let_def)
  have f8: "fl64 (9 / 20) = 8106479329266893 / 18014398509481984"
    by (simp add: fl64_up [where k = 54] round_half_even_def Let_def)
  have f9: "fl64 (3 / 25) = 1080863910568919 / 9007199254740992"
    by (simp add: fl64_up [where k = 56] round_half_even_def Let_def)
  have f10: "fl64 (5764607523034235 / 576460752303423488) = 5764607523034235 / 576460752303423488"
    by (simp add: fl64_up [where k = 59] round_half_even_def Let_def)
  have f11: "fl64 (7566047373982433 / 36028797018963968) = 7566047373982433 / 36028797018963968"
    by (simp add: fl64_up [where k = 55] round_half_even_def Let_def)
  have f12: "fl64 (8106479329266893 / 72057594037927936) = 8106479329266893 / 72057594037927936"
    by (simp add: fl64_up [where k = 56] round_half_even_def Let_def)
  have f13: "fl64 (1080863910568919 / 72057594037927936) = 1080863910568919 / 72057594037927936"
    by (simp add: fl64_up [where k = 59] round_half_even_def Let_def)
  have f14: "fl64 (126821365506753163 / 576460752303423488) = 7926335344172073 / 36028797018963968"
    by (simp add: fl64_up [where k = 55] round_half_even_def Let_def)
  have f15: "fl64 (23959150017611039 / 72057594037927936) = 748723438050345 / 2251799813685248"
    by (simp add: fl64_up [where k = 54] round_half_even_def Let_def)
  have f16: "fl64 (25040013928179959 / 72057594037927936) = 3130001741022495 / 9007199254740992"
    by (simp add: fl64_up [where k = 54] round_half_even_def Let_def)
  have f17: "fl64 (9007199254740992 / 3130001741022495) = 809999932980305 / 281474976710656"
    by (simp add: fl64_up [where k = 51] round_half_even_def Let_def)
  show ?thesis
    by (simp add: calc_iplv_4 float_sum_def round_float_def py_round_def round_half_even_def Let_def
        f1 f2 f3 f4 f5 f6 f7 f8 f9 f10 f11 f12 f13 f14 f15 f16 f17)
qed

lemma iplv_tie_Sequential:
  "calc_iplv Sequential [7 / 16, 7 / 16, 7 / 16, 7 / 16] = Inr (fl64 0.437)"
proof -
  have f1: "fl64 (7 / 16) = 7 / 16"
    by (simp add: fl64_up [where k = 54] round_half_even_def Let_def)
  have f2: "fl64 (437 / 1000) = 7872292148643627 / 18014398509481984"
    by (simp add: fl64_up [where k = 54] round_half_even_def Let_def)
  have f3: "fl64 (1 / 100) = 5764607523034235 / 576460752303423488"
    by (simp add: fl64_up [where k = 59] round_half_even_def Let_def)
  have f4: "fl64 (21 / 50) = 7566047373982433 / 18014398509481984"
    by (simp add: fl64_up [where k = 54] round_half_even_def Let_def)
  have f5: "fl64 (9 / 20) = 8106479329266893 / 18014398509481984"
    by (simp add: fl64_up [where k = 54] round_half_even_def Let_def)
  have f6: "fl64 (3 / 25) = 1080863910568919 / 9007199254740992"
    by (simp add: fl64_up [where k = 56] round_half_even_def Let_def)
  have f7: "fl64 (5764607523034235 / 252201579132747776) = 6588122883467697 / 288230376151711744"
    by (simp add: fl64_up [where k = 58] round_half_even_def Let_def)
  have f8: "fl64 (1080863910568919 / 1125899906842624) = 1080863910568919 / 1125899906842624"
    by (simp add: fl64_up [where k = 53] round_half_even_def Let_def)
  have f9: "fl64 (8106479329266893 / 7881299347898368) = 4632273902438225 / 4503599627370496"
    by (simp add: fl64_up [where k = 52] round_half_even_def Let_def)
  have f10: "fl64 (1080863910568919 / 3940649673949184) = 4941092162600773 / 18014398509481984"
    by (simp add: fl64_up [where k = 54] round_half_even_def Let_def)
  have f11: "fl64 (6588122883467697 / 288230376151711744) = 6588122883467697 / 288230376151711744"
    by (simp add: fl64_up [where k = 58] round_half_even_def Let_def)
  have f12: "fl64 (283289283989110961 / 288230376151711744) = 4426395062329859 / 4503599627370496"
    by (simp add: fl64_up [where k = 53] round_half_even_def Let_def)
  have f13: "fl64 (2264667241192021 / 1125899906842624) = 2264667241192021 / 1125899906842624"
    by (simp add: fl64_up [where k = 51] round_half_even_def Let_def)
  have f14: "fl64 (41175768021673109 / 18014398509481984) = 5146971002709139 / 2251799813685248"
    by (simp add: fl64_up [where k = 51] round_half_even_def Let_def)
  have f15: "fl64 (2251799813685248 / 5146971002709139) = 7881299347898367 / 18014398509481984"
    by (simp add: fl64_up [where k = 54] round_half_even_def Let_def)
  show ?thesis
    by (simp add: calc_iplv_4 float_sum_def round_float_def py_round_def round_half_even_def Let_def
        f1 f2 f3 f4 f5 f6 f7 f8 f9 f10 f11 f12 f13 f14 f15)
qed

lemma iplv_099_Sequential:
  "calc_iplv Sequential [fl64 0.79, fl64 0.99, fl64 0.99, fl64 0.99] = Inr (fl64 0.987)"
proof -
  have f1: "fl64 (79 / 100) = 889460926405673 / 1125899906842624"
    by (simp add: fl64_up [where k = 53] round_half_even_def Let_def)
  have f2: "fl64 (99 / 100) = 4458563631096791 / 4503599627370496"
    by (simp add: fl64_up [where k = 53] round_half_even_def Let_def)
  have f3: "fl64 (987 / 1000) = 8890105664429359 / 9007199254740992"
    by (simp add: fl64_up [where k = 53] round_half_even_def Let_def)
  have f4: "fl64 (1 / 100) = 5764607523034235 / 576460752303423488"
    by (simp add: fl64_up [where k = 59] round_half_even_def Let_def)
  have f5: "fl64 (21 / 50) = 7566047373982433 / 18014398509481984"
    by (simp add: fl64_up [where k = 54] round_half_even_def Let_def)
  have f6: "fl64 (9 / 20) = 8106479329266893 / 18014398509481984"
    by (simp add: fl64_up [where k = 54] round_half_even_def Let_def)
  have f7: "fl64 (3 / 25) = 1080863910568919 / 9007199254740992"
    by (simp add: fl64_up [where k = 56] round_half_even_def Let_def)
  have f8: "fl64 (5764607523034235 / 455403994319704576) = 7296971548144601 / 576460752303423488"
    by (simp add: fl64_up [where k = 59] round_half_even_def Let_def)
  have f9: "fl64 (7566047373982433 / 17834254524387164) = 7642472094931751 / 18014398509481984"
    by (simp add: fl64_up [where k = 54] round_half_even_def Let_def)
  have f10: "fl64 (8106479329266893 / 17834254524387164) = 1023545369856931 / 2251799813685248"
    by (simp add: fl64_up [where k = 54] round_half_even_def Let_def)
  have f11: "fl64 (1080863910568919 / 8917127262193582) = 1091781727847393 / 9007199254740992"
    by (simp add: fl64_up [where k = 56] round_half_even_def Let_def)
  have f12: "fl64 (7296971548144601 / 576460752303423488) = 7296971548144601 / 576460752303423488"
    by (simp add: fl64_up [where k = 59] round_half_even_def Let_def)
  have f13: "fl64 (251856078585960633 / 576460752303423488) = 3935251227905635 / 9007199254740992"
    by (simp add: fl64_up [where k = 54] round_half_even_def Let_def)
  have f14: "fl64 (8029432707333359 / 9007199254740992) = 8029432707333359 / 9007199254740992"
    by (simp add: fl64_up [where k = 53] round_half_even_def Let_def)
  have f15: "fl64 (570075902198797 / 562949953421312) = 570075902198797 / 562949953421312"
    by (simp add: fl64_up [where k = 52] round_half_even_def Let_def)
  have f16: "fl64 (562949953421312 / 570075902198797) = 8894609264056729 / 9007199254740992"
    by (simp add: fl64_up [where k = 53] round_half_even_def Let_def)
  show ?thesis
    by (simp add: calc_iplv_4 float_sum_def round_float_def py_round_def round_half_even_def Let_def
        f1 f2 f3 f4 f5 f6 f7 f8 f9 f10 f11 f12 f13 f14 f15 f16)
qed

lemma iplv_00025_Sequential:
  "calc_iplv Sequential [fl64 0.0025, fl64 0.0025, fl64 0.0025, fl64 0.0025] = Inr (fl64 0.003)"
proof -
  have f1: "fl64 (1 / 400) = 5764607523034235 / 2305843009213693952"
    by (simp add: fl64_up [where k = 61] round_half_even_def Let_def)
  have f2: "fl64 (3 / 1000) = 3458764513820541 / 1152921504606846976"
    by (simp add: fl64_up [where k = 61] round_half_even_def Let_def)
  have f3: "fl64 (1 / 100) = 5764607523034235 / 576460752303423488"
    by (simp add: fl64_up [where k = 59] round_half_even_def Let_def)
  have f4: "fl64 (21 / 50) = 7566047373982433 / 18014398509481984"
    by (simp add: fl64_up [where k = 54] round_half_even_def Let_def)
  have f5: "fl64 (9 / 20) = 8106479329266893 / 18014398509481984"
    by (simp add: fl64_up [where k = 54] round_half_even_def Let_def)
  have f6: "fl64 (3 / 25) = 1080863910568919 / 9007199254740992"
    by (simp add: fl64_up [where k = 56] round_half_even_def Let_def)
  have f7: "fl64 (4) = 4"
    by (simp add: fl64_up [where k = 50] round_half_even_def Let_def)
  have f8: "fl64 (968454063869751424 / 5764607523034235) = 168"
    by (simp add: fl64_up [where k = 45] round_half_even_def Let_def)
  have f9: "fl64 (1037629354146162304 / 5764607523034235) = 180"
    by (simp add: fl64_up [where k = 45] round_half_even_def Let_def)
  have f10: "fl64 (276701161105643264 / 5764607523034235) = 48"
    by (simp add: fl64_up [where k = 47] round_half_even_def Let_def)
  have f11: "fl64 (172) = 172"
    by (simp add: fl64_up [where k = 45] round_half_even_def Let_def)
  have f12: "fl64 (352) = 352"
    by (simp add: fl64_up [where k = 44] round_half_even_def Let_def)
  have f13: "fl64 (400) = 400"
    by (simp add: fl64_up [where k = 44] round_half_even_def Let_def)
  show ?thesis
    by (simp add: calc_iplv_4 float_sum_def round_float_def py_round_def round_half_even_def Let_def
        f1 f2 f3 f4 f5 f6 f7 f8 f9 f10 f11 f12 f13)
qed

lemma iplv_cancel_Sequential:
  "calc_iplv Sequential [fl64 0.01, fl64 0.42, - fl64 0.45, - fl64 0.12] = Inl ZeroDivisionError"
proof -
  have f1: "fl64 (1 / 100) = 5764607523034235 / 576460752303423488"
    by (simp add: fl64_up [where k = 59] round_half_even_def Let_def)
  have f2: "fl64 (21 / 50) = 7566047373982433 / 18014398509481984"
    by (simp add: fl64_up [where k = 54] round_half_even_def Let_def)
  have f3: "fl64 (9 / 20) = 8106479329266893 / 18014398509481984"
    by (simp add: fl64_up [where k = 54] round_half_even_def Let_def)
  have f4: "fl64 (3 / 25) = 1080863910568919 / 9007199254740992"
    by (simp add: fl64_up [where k = 56] round_half_even_def Let_def)
  have f5: "fl64 (1) = 1"
    by (simp add: fl64_up [where k = 52] round_half_even_def Let_def)
  have f6: "fl64 (- 1) = - 1"
    by (simp add: fl64_up [where k = 52] round_half_even_def Let_def)
  have f7: "fl64 (2) = 2"
    by (simp add: fl64_up [where k = 51] round_half_even_def Let_def)
  show ?thesis
    by (simp add: calc_iplv_4 float_sum_def round_float_def py_round_def round_half_even_def Let_def
        f1 f2 f3 f4 f5 f6 f7)
qed

lemma iplv_cancel_reals_Sequential:
  "calc_iplv Sequential [1 / 100, 21 / 50, - (9 / 20), - (3 / 25)] = Inl ZeroDivisionError"
proof -
  have f1: "fl64 (1 / 100) = 5764607523034235 / 576460752303423488"
    by (simp add: fl64_up [where k = 59] round_half_even_def Let_def)
  have f2: "fl64 (21 / 50) = 7566047373982433 / 18014398509481984"
    by (simp add: fl64_up [where k = 54] round_half_even_def Let_def)
  have f3: "fl64 (9 / 20) = 8106479329266893 / 18014398509481984"
    by (simp add: fl64_up [where k = 54] round_half_even_def Let_def)
  have f4: "fl64 (3 / 25) = 1080863910568919 / 9007199254740992"
    by (simp add: fl64_up [where k = 56] round_half_even_def Let_def)
  have f5: "fl64 (144115188075855875 / 144115188075855872) = 1"
    by (simp add: fl64_up [where k = 52] round_half_even_def Let_def)
  have f6: "fl64 (27021597764222975 / 27021597764222976) = 1"
    by (simp add: fl64_up [where k = 53] round_half_even_def Let_def)
  have f7: "fl64 (- (40532396646334465 / 40532396646334464)) = - 1"
    by (simp add: fl64_up [where k = 52] round_half_even_def Let_def)
  have f8: "fl64 (- (27021597764222975 / 27021597764222976)) = - 1"
    by (simp add: fl64_up [where k = 53] round_half_even_def Let_def)
  have f9: "fl64 (1) = 1"
    by (simp add: fl64_up [where k = 52] round_half_even_def Let_def)
  have f10: "fl64 (2) = 2"
    by (simp add: fl64_up [where k = 51] round_half_even_def Let_def)
  show ?thesis
    by (simp add: calc_iplv_4 float_sum_def round_float_def py_round_def round_half_even_def Let_def
        f1 f2 f3 f4 f5 f6 f7 f8 f9 f10)
qed

lemma iplv_default_Compensated:
  "calc_iplv Compensated [fl64 0.6, fl64 0.65, fl64 0.72, fl64 0.85] = Inr (fl64 0.7)"
proof -
  have f1: "fl64 (3 / 5) = 5404319552844595 / 9007199254740992"
    by (simp add: fl64_up [where k = 53] round_half_even_def Let_def)
  have f2: "fl64 (13 / 20) = 5854679515581645 / 9007199254740992"
    by (simp add: fl64_up [where k = 53] round_half_even_def Let_def)
  have f3: "fl64 (18 / 25) = 3242591731706757 / 4503599627370496"
    by (simp add: fl64_up [where k = 53] round_half_even_def Let_def)
  have f4: "fl64 (17 / 20) = 7656119366529843 / 9007199254740992"
    by (simp add: fl64_up [where k = 53] round_half_even_def Let_def)
  have f5: "fl64 (7 / 10) = 3152519739159347 / 4503599627370496"
    by (simp add: fl64_up [where k = 53] round_half_even_def Let_def)
  have f6: "fl64 (1 / 100) = 5764607523034235 / 576460752303423488"
    by (simp add: fl64_up [where k = 59] round_half_even_def Let_def)
  have f7: "fl64 (21 / 50) = 7566047373982433 / 18014398509481984"
    by (simp add: fl64_up [where k = 54] round_half_even_def Let_def)
  have f8: "fl64 (9 / 20) = 8106479329266893 / 18014398509481984"
    by (simp add: fl64_up [where k = 54] round_half_even_def Let_def)
  have f9: "fl64 (3 / 25) = 1080863910568919 / 9007199254740992"
    by (simp add: fl64_up [where k = 56] round_half_even_def Let_def)
  have f10: "fl64 (1152921504606847 / 69175290276410816) = 4803839602528529 / 288230376151711744"
    by (simp add: fl64_up [where k = 58] round_half_even_def Let_def)
  have f11: "fl64 (1080863910568919 / 1672765575880470) = 1455009110381237 / 2251799813685248"
    by (simp add: fl64_up [where k = 53] round_half_even_def Let_def)
  have f12: "fl64 (8106479329266893 / 12970366926827028) = 5 / 8"
    by (simp add: fl64_up [where k = 53] round_half_even_def Let_def)
  have f13: "fl64 (1080863910568919 / 7656119366529843) = 2543209201338633 / 18014398509481984"
    by (simp add: fl64_up [where k = 55] round_half_even_def Let_def)
  have f14: "fl64 (4803839602528529 / 288230376151711744) = 4803839602528529 / 288230376151711744"
    by (simp add: fl64_up [where k = 58] round_half_even_def Let_def)
  have f15: "fl64 (191045005731326865 / 288230376151711744) = 5970156429103965 / 9007199254740992"
    by (simp add: fl64_up [where k = 53] round_half_even_def Let_def)
  have f16: "fl64 (- (150119987579017 / 9007199254740992)) = - (150119987579017 / 9007199254740992)"
    by (simp add: fl64_up [where k = 58] round_half_even_def Let_def)
  have f17: "fl64 (- (15 / 288230376151711744)) = - (15 / 288230376151711744)"
    by (simp add: fl64_up [where k = 107] round_half_even_def Let_def)
  have f18: "fl64 (11599655963317085 / 9007199254740992) = 2899913990829271 / 2251799813685248"
    by (simp add: fl64_up [where k = 52] round_half_even_def Let_def)
  have f19: "fl64 (- (5629499534213119 / 9007199254740992)) = - (5629499534213119 / 9007199254740992)"
    by (simp add: fl64_up [where k = 53] round_half_even_def Let_def)
  have f20: "fl64 (1 / 9007199254740992) = 1 / 9007199254740992"
    by (simp add: fl64_up [where k = 105] round_half_even_def Let_def)
  have f21: "fl64 (17 / 288230376151711744) = 17 / 288230376151711744"
    by (simp add: fl64_up [where k = 106] round_half_even_def Let_def)
  have f22: "fl64 (25742521127972801 / 18014398509481984) = 402226892624575 / 281474976710656"
    by (simp add: fl64_up [where k = 52] round_half_even_def Let_def)
  have f23: "fl64 (- (317901150167329 / 2251799813685248)) = - (317901150167329 / 2251799813685248)"
    by (simp add: fl64_up [where k = 55] round_half_even_def Let_def)
  have f24: "fl64 (1 / 18014398509481984) = 1 / 18014398509481984"
    by (simp add: fl64_up [where k = 106] round_half_even_def Let_def)
  have f25: "fl64 (33 / 288230376151711744) = 33 / 288230376151711744"
    by (simp add: fl64_up [where k = 105] round_half_even_def Let_def)
  have f26: "fl64 (411880338047564833 / 288230376151711744) = 6435630281993201 / 4503599627370496"
    by (simp add: fl64_up [where k = 52] round_half_even_def Let_def)
  have f27: "fl64 (4503599627370496 / 6435630281993201) = 98486903743919 / 140737488355328"
    by (simp add: fl64_up [where k = 53] round_half_even_def Let_def)
  show ?thesis
    by (simp add: calc_iplv_4 float_sum_def round_float_def py_round_def round_half_even_def Let_def
        f1 f2 f3 f4 f5 f6 f7 f8 f9 f10 f11 f12 f13 f14 f15 f16 f17 f18 f19 f20 f21 f22 f23 f24 f25 f26 f27)
qed

lemma iplv_1248_Compensated:
  "calc_iplv Compensated [1, 2, 4, 8] = Inr (fl64 2.878)"
proof -
  have f1: "fl64 (1) = 1"
    by (simp add: fl64_up [where k = 52] round_half_even_def Let_def)
  have f2: "fl64 (2) = 2"
    by (simp add: fl64_up [where k = 51] round_half_even_def Let_def)
  have f3: "fl64 (4) = 4"
    by (simp add: fl64_up [where k = 50] round_half_even_def Let_def)
  have f4: "fl64 (8) = 8"
    by (simp add: fl64_up [where k = 49] round_half_even_def Let_def)
  have f5: "fl64 (1439 / 500) = 202521245743317 / 70368744177664"
    by (simp add: fl64_up [where k = 51] round_half_even_def Let_def)
  have f6: "fl64 (1 / 100) = 5764607523034235 / 576460752303423488"
    by (simp add: fl64_up [where k = 59] round_half_even_def Let_def)
  have f7: "fl64 (21 / 50) = 7566047373982433 / 18014398509481984"
    by (simp add: fl64_up [where k = 54] round_half_even_def Let_def)
  have f8: "fl64 (9 / 20) = 8106479329266893 / 18014398509481984"
    by (simp add: fl64_up [where k = 54] round_half_even_def Let_def)
  have f9: "fl64 (3 / 25) = 1080863910568919 / 9007199254740992"
    by (simp add: fl64_up [where k = 56] round_half_even_def Let_def)
  have f10: "fl64 (5764607523034235 / 576460752303423488) = 5764607523034235 / 576460752303423488"
    by (simp add: fl64_up [where k = 59] round_half_even_def Let_def)
  have f11: "fl64 (7566047373982433 / 36028797018963968) = 7566047373982433 / 36028797018963968"
    by (simp add: fl64_up [where k = 55] round_half_even_def Let_def)
  have f12: "fl64 (8106479329266893 / 72057594037927936) = 8106479329266893 / 72057594037927936"
    by (simp add: fl64_up [where k = 56] round_half_even_def Let_def)
  have f13: "fl64 (1080863910568919 / 72057594037927936) = 1080863910568919 / 72057594037927936"
    by (simp add: fl64_up [where k = 59] round_half_even_def Let_def)
  have f14: "fl64 (126821365506753163 / 576460752303423488) = 7926335344172073 / 36028797018963968"
    by (simp add: fl64_up [where k = 55] round_half_even_def Let_def)
  have f15: "fl64 (- (45035996273705 / 4503599627370496)) = - (45035996273705 / 4503599627370496)"
    by (simp add: fl64_up [where k = 59] round_half_even_def Let_def)
  have f16: "fl64 (- (5 / 576460752303423488)) = - (5 / 576460752303423488)"
    by (simp add: fl64_up [where k = 109] round_half_even_def Let_def)
  have f17: "fl64 (23959150017611039 / 72057594037927936) = 748723438050345 / 2251799813685248"
    by (simp add: fl64_up [where k = 54] round_half_even_def Let_def)
  have f18: "fl64 (- (4053239664633447 / 36028797018963968)) = - (4053239664633447 / 36028797018963968)"
    by (simp add: fl64_up [where k = 56] round_half_even_def Let_def)
  have f19: "fl64 (- (1 / 72057594037927936)) = - (1 / 72057594037927936)"
    by (simp add: fl64_up [where k = 108] round_half_even_def Let_def)
  have f20: "fl64 (- (13 / 576460752303423488)) = - (13 / 576460752303423488)"
    by (simp add: fl64_up [where k = 108] round_half_even_def Let_def)
  have f21: "fl64 (25040013928179959 / 72057594037927936) = 3130001741022495 / 9007199254740992"
    by (simp add: fl64_up [where k = 54] round_half_even_def Let_def)
  have f22: "fl64 (- (135107988821115 / 9007199254740992)) = - (135107988821115 / 9007199254740992)"
    by (simp add: fl64_up [where k = 59] round_half_even_def Let_def)
  have f23: "fl64 (- (21 / 576460752303423488)) = - (21 / 576460752303423488)"
    by (simp add: fl64_up [where k = 107] round_half_even_def Let_def)
  have f24: "fl64 (200320111425439659 / 576460752303423488) = 6260003482044989 / 18014398509481984"
    by (simp add: fl64_up [where k = 54] round_half_even_def Let_def)
  have f25: "fl64 (18014398509481984 / 6260003482044989) = 6479999463842441 / 2251799813685248"
    by (simp add: fl64_up [where k = 51] round_half_even_def Let_def)
  show ?thesis
    by (simp add: calc_iplv_4 float_sum_def round_float_def py_round_def round_half_even_def Let_def
        f1 f2 f3 f4 f5 f6 f7 f8 f9 f10 f11 f12 f13 f14 f15 f16 f17 f18 f19 f20 f21 f22 f23 f24 f25)
qed

lemma iplv_tie_Compensated:
  "calc_iplv Compensated [7 / 16, 7 / 16, 7 / 16, 7 / 16] = Inr (fl64 0.437)"
proof -
  have f1: "fl64 (7 / 16) = 7 / 16"
    by (simp add: fl64_up [where k = 54] round_half_even_def Let_def)
  have f2: "fl64 (437 / 1000) = 7872292148643627 / 18014398509481984"
    by (simp add: fl64_up [where k = 54] round_half_even_def Let_def)
  have f3: "fl64 (1 / 100) = 5764607523034235 / 576460752303423488"
    by (simp add: fl64_up [where k = 59] round_half_even_def Let_def)
  have f4: "fl64 (21 / 50) = 7566047373982433 / 18014398509481984"
    by (simp add: fl64_up [where k = 54] round_half_even_def Let_def)
  have f5: "fl64 (9 / 20) = 8106479329266893 / 18014398509481984"
    by (simp add: fl64_up [where k = 54] round_half_even_def Let_def)
  have f6: "fl64 (3 / 25) = 1080863910568919 / 9007199254740992"
    by (simp add: fl64_up [where k = 56] round_half_even_def Let_def)
  have f7: "fl64 (5764607523034235 / 252201579132747776) = 6588122883467697 / 288230376151711744"
    by (simp add: fl64_up [where k = 58] round_half_even_def Let_def)
  have f8: "fl64 (1080863910568919 / 1125899906842624) = 1080863910568919 / 1125899906842624"
    by (simp add: fl64_up [where k = 53] round_half_even_def Let_def)
  have f9: "fl64 (8106479329266893 / 7881299347898368) = 4632273902438225 / 4503599627370496"
    by (simp add: fl64_up [where k = 52] round_half_even_def Let_def)
  have f10: "fl64 (1080863910568919 / 3940649673949184) = 4941092162600773 / 18014398509481984"
    by (simp add: fl64_up [where k = 54] round_half_even_def Let_def)
  have f11: "fl64 (6588122883467697 / 288230376151711744) = 6588122883467697 / 288230376151711744"
    by (simp add: fl64_up [where k = 58] round_half_even_def Let_def)
  have f12: "fl64 (283289283989110961 / 288230376151711744) = 4426395062329859 / 4503599627370496"
    by (simp add: fl64_up [where k = 53] round_half_even_def Let_def)
  have f13: "fl64 (- (102939420054183 / 4503599627370496)) = - (102939420054183 / 4503599627370496)"
    by (simp add: fl64_up [where k = 58] round_half_even_def Let_def)
  have f14: "fl64 (- (15 / 288230376151711744)) = - (15 / 288230376151711744)"
    by (simp add: fl64_up [where k = 107] round_half_even_def Let_def)
  have f15: "fl64 (2264667241192021 / 1125899906842624) = 2264667241192021 / 1125899906842624"
    by (simp add: fl64_up [where k = 51] round_half_even_def Let_def)
  have f16: "fl64 (- (4426395062329859 / 4503599627370496)) = - (4426395062329859 / 4503599627370496)"
    by (simp add: fl64_up [where k = 53] round_half_even_def Let_def)
  have f17: "fl64 (41175768021673109 / 18014398509481984) = 5146971002709139 / 2251799813685248"
    by (simp add: fl64_up [where k = 51] round_half_even_def Let_def)
  have f18: "fl64 (- (617636520325097 / 2251799813685248)) = - (617636520325097 / 2251799813685248)"
    by (simp add: fl64_up [where k = 54] round_half_even_def Let_def)
  have f19: "fl64 (- (3 / 18014398509481984)) = - (3 / 18014398509481984)"
    by (simp add: fl64_up [where k = 105] round_half_even_def Let_def)
  have f20: "fl64 (- (63 / 288230376151711744)) = - (63 / 288230376151711744)"
    by (simp add: fl64_up [where k = 105] round_half_even_def Let_def)
  have f21: "fl64 (658812288346769729 / 288230376151711744) = 5146971002709139 / 2251799813685248"
    by (simp add: fl64_up [where k = 51] round_half_even_def Let_def)
  have f22: "fl64 (2251799813685248 / 5146971002709139) = 7881299347898367 / 18014398509481984"
    by (simp add: fl64_up [where k = 54] round_half_even_def Let_def)
  show ?thesis
    by (simp add: calc_iplv_4 float_sum_def round_float_def py_round_def round_half_even_def Let_def
        f1 f2 f3 f4 f5 f6 f7 f8 f9 f10 f11 f12 f13 f14 f15 f16 f17 f18 f19 f20 f21 f22)
qed

lemma iplv_099_Compensated:
  "calc_iplv Compensated [fl64 0.79, fl64 0.99, fl64 0.99, fl64 0.99] = Inr (fl64 0.987)"
proof -
  have f1: "fl64 (79 / 100) = 889460926405673 / 1125899906842624"
    by (simp add: fl64_up [where k = 53] round_half_even_def Let_def)
  have f2: "fl64 (99 / 100) = 4458563631096791 / 4503599627370496"
    by (simp add: fl64_up [where k = 53] round_half_even_def Let_def)
  have f3: "fl64 (987 / 1000) = 8890105664429359 / 9007199254740992"
    by (simp add: fl64_up [where k = 53] round_half_even_def Let_def)
  have f4: "fl64 (1 / 100) = 5764607523034235 / 576460752303423488"
    by (simp add: fl64_up [where k = 59] round_half_even_def Let_def)
  have f5: "fl64 (21 / 50) = 7566047373982433 / 18014398509481984"
    by (simp add: fl64_up [where k = 54] round_half_even_def Let_def)
  have f6: "fl64 (9 / 20) = 8106479329266893 / 18014398509481984"
    by (simp add: fl64_up [where k = 54] round_half_even_def Let_def)
  have f7: "fl64 (3 / 25) = 1080863910568919 / 9007199254740992"
    by (simp add: fl64_up [where k = 56] round_half_even_def Let_def)
  have f8: "fl64 (5764607523034235 / 455403994319704576) = 7296971548144601 / 576460752303423488"
    by (simp add: fl64_up [where k = 59] round_half_even_def Let_def)
  have f9: "fl64 (7566047373982433 / 17834254524387164) = 7642472094931751 / 18014398509481984"
    by (simp add: fl64_up [where k = 54] round_half_even_def Let_def)
  have f10: "fl64 (8106479329266893 / 17834254524387164) = 1023545369856931 / 2251799813685248"
    by (simp add: fl64_up [where k = 54] round_half_even_def Let_def)
  have f11: "fl64 (1080863910568919 / 8917127262193582) = 1091781727847393 / 9007199254740992"
    by (simp add: fl64_up [where k = 56] round_half_even_def Let_def)
  have f12: "fl64 (7296971548144601 / 576460752303423488) = 7296971548144601 / 576460752303423488"
    by (simp add: fl64_up [where k = 59] round_half_even_def Let_def)
  have f13: "fl64 (251856078585960633 / 576460752303423488) = 3935251227905635 / 9007199254740992"
    by (simp add: fl64_up [where k = 54] round_half_even_def Let_def)
  have f14: "fl64 (- (228030360879519 / 18014398509481984)) = - (228030360879519 / 18014398509481984)"
    by (simp add: fl64_up [where k = 59] round_half_even_def Let_def)
  have f15: "fl64 (- (7 / 576460752303423488)) = - (7 / 576460752303423488)"
    by (simp add: fl64_up [where k = 109] round_half_even_def Let_def)
  have f16: "fl64 (8029432707333359 / 9007199254740992) = 8029432707333359 / 9007199254740992"
    by (simp add: fl64_up [where k = 53] round_half_even_def Let_def)
  have f17: "fl64 (- (3935251227905635 / 9007199254740992)) = - (3935251227905635 / 9007199254740992)"
    by (simp add: fl64_up [where k = 54] round_half_even_def Let_def)
  have f18: "fl64 (570075902198797 / 562949953421312) = 570075902198797 / 562949953421312"
    by (simp add: fl64_up [where k = 52] round_half_even_def Let_def)
  have f19: "fl64 (- (1091781727847393 / 9007199254740992)) = - (1091781727847393 / 9007199254740992)"
    by (simp add: fl64_up [where k = 56] round_half_even_def Let_def)
  have f20: "fl64 (583757723851568121 / 576460752303423488) = 570075902198797 / 562949953421312"
    by (simp add: fl64_up [where k = 52] round_half_even_def Let_def)
  have f21: "fl64 (562949953421312 / 570075902198797) = 8894609264056729 / 9007199254740992"
    by (simp add: fl64_up [where k = 53] round_half_even_def Let_def)
  show ?thesis
    by (simp add: calc_iplv_4 float_sum_def round_float_def py_round_def round_half_even_def Let_def
        f1 f2 f3 f4 f5 f6 f7 f8 f9 f10 f11 f12 f13 f14 f15 f16 f17 f18 f19 f20 f21)
qed

lemma iplv_00025_Compensated:
  "calc_iplv Compensated [fl64 0.0025, fl64 0.0025, fl64 0.0025, fl64 0.0025] = Inr (fl64 0.003)"
proof -
  have f1: "fl64 (1 / 400) = 5764607523034235 / 2305843009213693952"
    by (simp add: fl64_up [where k = 61] round_half_even_def Let_def)
  have f2: "fl64 (3 / 1000) = 3458764513820541 / 1152921504606846976"
    by (simp add: fl64_up [where k = 61] round_half_even_def Let_def)
  have f3: "fl64 (1 / 100) = 5764607523034235 / 576460752303423488"
    by (simp add: fl64_up [where k = 59] round_half_even_def Let_def)
  have f4: "fl64 (21 / 50) = 7566047373982433 / 18014398509481984"
    by (simp add: fl64_up [where k = 54] round_half_even_def Let_def)
  have f5: "fl64 (9 / 20) = 8106479329266893 / 18014398509481984"
    by (simp add: fl64_up [where k = 54] round_half_even_def Let_def)
  have f6: "fl64 (3 / 25) = 1080863910568919 / 9007199254740992"
    by (simp add: fl64_up [where k = 56] round_half_even_def Let_def)
  have f7: "fl64 (4) = 4"
    by (simp add: fl64_up [where k = 50] round_half_even_def Let_def)
  have f8: "fl64 (968454063869751424 / 5764607523034235) = 168"
    by (simp add: fl64_up [where k = 45] round_half_even_def Let_def)
  have f9: "fl64 (1037629354146162304 / 5764607523034235) = 180"
    by (simp add: fl64_up [where k = 45] round_half_even_def Let_def)
  have f10: "fl64 (276701161105643264 / 5764607523034235) = 48"
    by (simp add: fl64_up [where k = 47] round_half_even_def Let_def)
  have f11: "fl64 (172) = 172"
    by (simp add: fl64_up [where k = 45] round_half_even_def Let_def)
  have f12: "fl64 (- 4) = - 4"
    by (simp add: fl64_up [where k = 50] round_half_even_def Let_def)
  have f13: "fl64 (352) = 352"
    by (simp add: fl64_up [where k = 44] round_half_even_def Let_def)
  have f14: "fl64 (- 172) = - 172"
    by (simp add: fl64_up [where k = 45] round_half_even_def Let_def)
  have f15: "fl64 (400) = 400"
    by (simp add: fl64_up [where k = 44] round_half_even_def Let_def)
  have f16: "fl64 (- 48) = - 48"
    by (simp add: fl64_up [where k = 47] round_half_even_def Let_def)
  show ?thesis
    by (simp add: calc_iplv_4 float_sum_def round_float_def py_round_def round_half_even_def Let_def
        f1 f2 f3 f4 f5 f6 f7 f8 f9 f10 f11 f12 f13 f14 f15 f16)
qed

lemma iplv_cancel_Compensated:
  "calc_iplv Compensated [fl64 0.01, fl64 0.42, - fl64 0.45, - fl64 0.12] = Inl ZeroDivisionError"
proof -
  have f1: "fl64 (1 / 100) = 5764607523034235 / 576460752303423488"
    by (simp add: fl64_up [where k = 59] round_half_even_def Let_def)
  have f2: "fl64 (21 / 50) = 7566047373982433 / 18014398509481984"
    by (simp add: fl64_up [where k = 54] round_half_even_def Let_def)
  have f3: "fl64 (9 / 20) = 8106479329266893 / 18014398509481984"
    by (simp add: fl64_up [where k = 54] round_half_even_def Let_def)
  have f4: "fl64 (3 / 25) = 1080863910568919 / 9007199254740992"
    by (simp add: fl64_up [where k = 56] round_half_even_def Let_def)
  have f5: "fl64 (1) = 1"
    by (simp add: fl64_up [where k = 52] round_half_even_def Let_def)
  have f6: "fl64 (- 1) = - 1"
    by (simp add: fl64_up [where k = 52] round_half_even_def Let_def)
  have f7: "fl64 (2) = 2"
    by (simp add: fl64_up [where k = 51] round_half_even_def Let_def)
  show ?thesis
    by (simp add: calc_iplv_4 float_sum_def round_float_def py_round_def round_half_even_def Let_def
        f1 f2 f3 f4 f5 f6 f7)
qed

lemma iplv_cancel_reals_Compensated:
  "calc_iplv Compensated [1 / 100, 21 / 50, - (9 / 20), - (3 / 25)] = Inl ZeroDivisionError"
proof -
  have f1: "fl64 (1 / 100) = 5764607523034235 / 576460752303423488"
    by (simp add: fl64_up [where k = 59] round_half_even_def Let_def)
  have f2: "fl64 (21 / 50) = 7566047373982433 / 18014398509481984"
    by (simp add: fl64_up [where k = 54] round_half_even_def Let_def)
  have f3: "fl64 (9 / 20) = 8106479329266893 / 18014398509481984"
    by (simp add: fl64_up [where k = 54] round_half_even_def Let_def)
  have f4: "fl64 (3 / 25) = 1080863910568919 / 9007199254740992"
    by (simp add: fl64_up [where k = 56] round_half_even_def Let_def)
  have f5: "fl64 (144115188075855875 / 144115188075855872) = 1"
    by (simp add: fl64_up [where k = 52] round_half_even_def Let_def)
  have f6: "fl64 (27021597764222975 / 27021597764222976) = 1"
    by (simp add: fl64_up [where k = 53] round_half_even_def Let_def)
  have f7: "fl64 (- (40532396646334465 / 40532396646334464)) = - 1"
    by (simp add: fl64_up [where k = 52] round_half_even_def Let_def)
  have f8: "fl64 (- (27021597764222975 / 27021597764222976)) = - 1"
    by (simp add: fl64_up [where k = 53] round_half_even_def Let_def)
  have f9: "fl64 (1) = 1"
    by (simp add: fl64_up [where k = 52] round_half_even_def Let_def)
  have f10: "fl64 (2) = 2"
    by (simp add: fl64_up [where k = 51] round_half_even_def Let_def)
  have f11: "fl64 (- 1) = - 1"
    by (simp add: fl64_up [where k = 52] round_half_even_def Let_def)
  show ?thesis
    by (simp add: calc_iplv_4 float_sum_def round_float_def py_round_def round_half_even_def Let_def
        f1 f2 f3 f4 f5 f6 f7 f8 f9 f10 f11)
qed

lemma iplv_remainder_Sequential:
  "calc_iplv Sequential [fl64 0.03, fl64 1.26, - fl64 1.35, - fl64 0.36] = Inr 9007199254740992"
proof -
  have f1: "fl64 (3 / 100) = 1080863910568919 / 36028797018963968"
    by (simp add: fl64_up [where k = 58] round_half_even_def Let_def)
  have f2: "fl64 (63 / 50) = 5674535530486825 / 4503599627370496"
    by (simp add: fl64_up [where k = 52] round_half_even_def Let_def)
  have f3: "fl64 (27 / 20) = 3039929748475085 / 2251799813685248"
    by (simp add: fl64_up [where k = 52] round_half_even_def Let_def)
  have f4: "fl64 (9 / 25) = 3242591731706757 / 9007199254740992"
    by (simp add: fl64_up [where k = 54] round_half_even_def Let_def)
  have f5: "fl64 (1 / 100) = 5764607523034235 / 576460752303423488"
    by (simp add: fl64_up [where k = 59] round_half_even_def Let_def)
  have f6: "fl64 (21 / 50) = 7566047373982433 / 18014398509481984"
    by (simp add: fl64_up [where k = 54] round_half_even_def Let_def)
  have f7: "fl64 (9 / 20) = 8106479329266893 / 18014398509481984"
    by (simp add: fl64_up [where k = 54] round_half_even_def Let_def)
  have f8: "fl64 (3 / 25) = 1080863910568919 / 9007199254740992"
    by (simp add: fl64_up [where k = 56] round_half_even_def Let_def)
  have f9: "fl64 (5764607523034235 / 17293822569102704) = 3002399751580331 / 9007199254740992"
    by (simp add: fl64_up [where k = 54] round_half_even_def Let_def)
  have f10: "fl64 (7566047373982433 / 22698142121947300) = 6004799503160661 / 18014398509481984"
    by (simp add: fl64_up [where k = 54] round_half_even_def Let_def)
  have f11: "fl64 (- (8106479329266893 / 24319437987800680)) = - (6004799503160661 / 18014398509481984)"
    by (simp add: fl64_up [where k = 54] round_half_even_def Let_def)
  have f12: "fl64 (- (1 / 3)) = - (6004799503160661 / 18014398509481984)"
    by (simp add: fl64_up [where k = 54] round_half_even_def Let_def)
  have f13: "fl64 (3002399751580331 / 9007199254740992) = 3002399751580331 / 9007199254740992"
    by (simp add: fl64_up [where k = 54] round_half_even_def Let_def)
  have f14: "fl64 (12009599006321323 / 18014398509481984) = 3002399751580331 / 4503599627370496"
    by (simp add: fl64_up [where k = 53] round_half_even_def Let_def)
  have f15: "fl64 (6004799503160663 / 18014398509481984) = 6004799503160663 / 18014398509481984"
    by (simp add: fl64_up [where k = 54] round_half_even_def Let_def)
  have f16: "fl64 (1 / 9007199254740992) = 1 / 9007199254740992"
    by (simp add: fl64_up [where k = 105] round_half_even_def Let_def)
  have f17: "fl64 (9007199254740992) = 9007199254740992"
    by (simp add: fl64_down [where k = 1] round_half_even_def Let_def)
  show ?thesis
    by (simp add: calc_iplv_4 float_sum_def round_float_def py_round_def round_half_even_def Let_def
        f1 f2 f3 f4 f5 f6 f7 f8 f9 f10 f11 f12 f13 f14 f15 f16 f17)
qed

lemma iplv_remainder_Compensated:
  "calc_iplv Compensated [fl64 0.03, fl64 1.26, - fl64 1.35, - fl64 0.36] = Inr 18014398509481984"
proof -
  have f1: "fl64 (3 / 100) = 1080863910568919 / 36028797018963968"
    by (simp add: fl64_up [where k = 58] round_half_even_def Let_def)
  have f2: "fl64 (63 / 50) = 5674535530486825 / 4503599627370496"
    by (simp add: fl64_up [where k = 52] round_half_even_def Let_def)
  have f3: "fl64 (27 / 20) = 3039929748475085 / 2251799813685248"
    by (simp add: fl64_up [where k = 52] round_half_even_def Let_def)
  have f4: "fl64 (9 / 25) = 3242591731706757 / 9007199254740992"
    by (simp add: fl64_up [where k = 54] round_half_even_def Let_def)
  have f5: "fl64 (1 / 100) = 5764607523034235 / 576460752303423488"
    by (simp add: fl64_up [where k = 59] round_half_even_def Let_def)
  have f6: "fl64 (21 / 50) = 7566047373982433 / 18014398509481984"
    by (simp add: fl64_up [where k = 54] round_half_even_def Let_def)
  have f7: "fl64 (9 / 20) = 8106479329266893 / 18014398509481984"
    by (simp add: fl64_up [where k = 54] round_half_even_def Let_def)
  have f8: "fl64 (3 / 25) = 1080863910568919 / 9007199254740992"
    by (simp add: fl64_up [where k = 56] round_half_even_def Let_def)
  have f9: "fl64 (5764607523034235 / 17293822569102704) = 3002399751580331 / 9007199254740992"
    by (simp add: fl64_up [where k = 54] round_half_even_def Let_def)
  have f10: "fl64 (7566047373982433 / 22698142121947300) = 6004799503160661 / 18014398509481984"
    by (simp add: fl64_up [where k = 54] round_half_even_def Let_def)
  have f11: "fl64 (- (8106479329266893 / 24319437987800680)) = - (6004799503160661 / 18014398509481984)"
    by (simp add: fl64_up [where k = 54] round_half_even_def Let_def)
  have f12: "fl64 (- (1 / 3)) = - (6004799503160661 / 18014398509481984)"
    by (simp add: fl64_up [where k = 54] round_half_even_def Let_def)
  have f13: "fl64 (3002399751580331 / 9007199254740992) = 3002399751580331 / 9007199254740992"
    by (simp add: fl64_up [where k = 54] round_half_even_def Let_def)
  have f14: "fl64 (12009599006321323 / 18014398509481984) = 3002399751580331 / 4503599627370496"
    by (simp add: fl64_up [where k = 53] round_half_even_def Let_def)
  have f15: "fl64 (- (3002399751580331 / 9007199254740992)) = - (3002399751580331 / 9007199254740992)"
    by (simp add: fl64_up [where k = 54] round_half_even_def Let_def)
  have f16: "fl64 (- (1 / 18014398509481984)) = - (1 / 18014398509481984)"
    by (simp add: fl64_up [where k = 106] round_half_even_def Let_def)
  have f17: "fl64 (6004799503160663 / 18014398509481984) = 6004799503160663 / 18014398509481984"
    by (simp add: fl64_up [where k = 54] round_half_even_def Let_def)
  have f18: "fl64 (6004799503160661 / 18014398509481984) = 6004799503160661 / 18014398509481984"
    by (simp add: fl64_up [where k = 54] round_half_even_def Let_def)
  have f19: "fl64 (1 / 9007199254740992) = 1 / 9007199254740992"
    by (simp add: fl64_up [where k = 105] round_half_even_def Let_def)
  have f20: "fl64 (1 / 18014398509481984) = 1 / 18014398509481984"
    by (simp add: fl64_up [where k = 106] round_half_even_def Let_def)
  have f21: "fl64 (18014398509481984) = 18014398509481984"
    by (simp add: fl64_down [where k = 2] round_half_even_def Let_def)
  show ?thesis
    by (simp add: calc_iplv_4 float_sum_def round_float_def py_round_def round_half_even_def Let_def
        f1 f2 f3 f4 f5 f6 f7 f8 f9 f10 f11 f12 f13 f14 f15 f16 f17 f18 f19 f20 f21)
qed

lemma flow_default:
  "flow_optimization 1000 6 = Inr (1438468618935541 / 36028797018963968) \<and>
   round_float (1438468618935541 / 36028797018963968) 3 = fl64 0.04 \<and>
   fl64 0.04 = 5764607523034235 / 144115188075855872"
proof -
  have f1: "fl64 (4187 / 1000) = 4714142909950067 / 1125899906842624"
    by (simp add: fl64_up [where k = 50] round_half_even_def Let_def)
  have f2: "fl64 (4700000481220216799 / 1125899906842624) = 2294922109970809 / 549755813888"
    by (simp add: fl64_up [where k = 40] round_half_even_def Let_def)
  have f3: "fl64 (6884766329912427 / 274877906944) = 6884766329912427 / 274877906944"
    by (simp add: fl64_up [where k = 38] round_half_even_def Let_def)
  have f4: "fl64 (274877906944000 / 6884766329912427) = 1438468618935541 / 36028797018963968"
    by (simp add: fl64_up [where k = 57] round_half_even_def Let_def)
  have f5: "fl64 (1 / 25) = 5764607523034235 / 144115188075855872"
    by (simp add: fl64_up [where k = 57] round_half_even_def Let_def)
  show ?thesis
    by (simp add: flow_optimization_def float_div_def cp_def density_si_def round_float_def py_round_def round_half_even_def Let_def
        f1 f2 f3 f4 f5)
qed

lemma flow_below_tie:
  "flow_optimization (fl64 125.23317) 4 = Inr (1080863910568919 / 144115188075855872) \<and>
   round_float (1080863910568919 / 144115188075855872) 3 = fl64 0.007"
proof -
  have f1: "fl64 (12523317 / 100000) = 4406250451143953 / 35184372088832"
    by (simp add: fl64_up [where k = 46] round_half_even_def Let_def)
  have f2: "fl64 (4187 / 1000) = 4714142909950067 / 1125899906842624"
    by (simp add: fl64_up [where k = 50] round_half_even_def Let_def)
  have f3: "fl64 (4700000481220216799 / 1125899906842624) = 2294922109970809 / 549755813888"
    by (simp add: fl64_up [where k = 40] round_half_even_def Let_def)
  have f4: "fl64 (2294922109970809 / 137438953472) = 2294922109970809 / 137438953472"
    by (simp add: fl64_up [where k = 38] round_half_even_def Let_def)
  have f5: "fl64 (4406250451143953 / 587500060152527104) = 1080863910568919 / 144115188075855872"
    by (simp add: fl64_up [where k = 60] round_half_even_def Let_def)
  have f6: "fl64 (7 / 1000) = 8070450532247929 / 1152921504606846976"
    by (simp add: fl64_up [where k = 60] round_half_even_def Let_def)
  show ?thesis
    by (simp add: flow_optimization_def float_div_def cp_def density_si_def round_float_def py_round_def round_half_even_def Let_def
        f1 f2 f3 f4 f5 f6)
qed

section \<open>Properties of the analyzer\<close>

subsection \<open>Division by zero\<close>



subsection \<open>Chiller formulas\<close>

text \<open>
  Claim C3. Under the I-P unit system, for a positive cooling capacity and a positive
  power input, the chiller section succeeds with kW per ton equal to power input over
  cooling capacity, EER equal to \<open>(cooling_capacity * 12000) / (power_input * 1000)\<close> and
  COP equal to EER over \<open>3.412\<close>.
\<close>

theorem chiller_IP_formulas:
  assumes "0 < cc" and "0 < pw"
  shows "\<exists>r. chiller_performance IP cc pw = Inr r \<and>
             kw_per_ton r = pw / cc \<and>
             eer r = (cc * 12000) / (pw * 1000) \<and>
             cop r = eer r / 3.412"
  using assms by (simp add: chiller_performance_def py_div_nonzero)

text \<open>
  The theorem of claim C3 at concrete inputs.
\<close>

theorem chiller_IP_formulas_witness:
  "(0::real) < 100 \<and> (0::real) < 60 \<and>
   (\<exists>r. chiller_performance IP 100 60 = Inr r \<and> kw_per_ton r = 0.6 \<and> eer r = 20 \<and>
        cop r = 20 / 3.412)"
  using chiller_IP_formulas [of 100 60] by auto

text \<open>
  Claim C4. Under the SI unit system, when the power input is non-zero and the quotient
  of cooling capacity and power input is non-zero, the chiller section succeeds with COP
  equal to that quotient, EER equal to COP times \<open>3.412\<close> and kW per ton equal to \<open>3.5\<close>
  over COP; so kW per ton times COP is \<open>3.5\<close>, and a COP of \<open>5\<close> gives \<open>0.7\<close> kW per ton.
\<close>

theorem chiller_SI_formulas:
  assumes "pw \<noteq> 0" and "cc / pw \<noteq> 0"
  shows "\<exists>r. chiller_performance SI cc pw = Inr r \<and>
             cop r = cc / pw \<and>
             eer r = cop r * 3.412 \<and>
             kw_per_ton r = 3.5 / cop r \<and>
             kw_per_ton r * cop r = 3.5 \<and>
             (cop r = 5 \<longrightarrow> kw_per_ton r = 0.7)"
proof -
  define c where "c = cc / pw"
  define r where "r = \<lparr>cop = c, eer = c * 3.412, kw_per_ton = 3.5 / c\<rparr>"
  have run: "chiller_performance SI cc pw = Inr r"
    using assms by (simp add: chiller_performance_def py_div_nonzero r_def c_def)
  have sel: "cop r = c" "eer r = c * 3.412" "kw_per_ton r = 3.5 / c"
    by (simp_all add: r_def)
  have prod: "3.5 / c * c = 3.5"
    using assms by (simp add: c_def)
  have five: "c = 5 \<longrightarrow> 3.5 / c = 0.7"
  proof
    assume "c = 5"
    then show "3.5 / c = 0.7" by simp
  qed
  show ?thesis
    unfolding c_def [symmetric]
  proof (intro exI conjI)
    show "chiller_performance SI cc pw = Inr r" by (rule run)
    show "cop r = c" by (rule sel)
    show "eer r = cop r * 3.412" by (simp only: sel)
    show "kw_per_ton r = 3.5 / cop r" by (simp only: sel)
    show "kw_per_ton r * cop r = 3.5" by (simp only: sel prod)
    show "cop r = 5 \<longrightarrow> kw_per_ton r = 0.7" unfolding sel by (rule five)
  qed
qed

text \<open>
  The theorem of claim C4 at concrete inputs.
\<close>

theorem chiller_SI_formulas_witness:
  "(60::real) \<noteq> 0 \<and> (300::real) / 60 \<noteq> 0 \<and>
   (\<exists>r. chiller_performance SI 300 60 = Inr r \<and> cop r = 5 \<and> eer r = 17.06 \<and>
        kw_per_ton r = 0.7)"
  using chiller_SI_formulas [of 60 300] by auto

subsection \<open>Pump formulas\<close>

text \<open>
  Claim C7. Whenever the pump power is non-zero, the pump section succeeds with hydraulic
  power \<open>flow * head * density * g / 1000\<close> and efficiency
  \<open>(hydraulic_power / pump_power) * 100\<close>, where density is \<open>1000\<close> and g is \<open>9.81\<close> under
  SI, and density is \<open>62.4 * 1.3558\<close> and g is \<open>32.174\<close> under I-P. On \<open>(0.02, 30, 6)\<close>
  under SI the hydraulic power is \<open>5.886\<close> and the efficiency \<open>98.1\<close> percent.
\<close>

theorem pump_formulas:
  "(pp \<noteq> 0 \<longrightarrow>
      (\<exists>p. pump_performance SI fl hh pp = Inr p \<and>
           hydraulic_power p = fl * hh * 1000 * 9.81 / 1000 \<and>
           efficiency p = (hydraulic_power p / pp) * 100) \<and>
      (\<exists>p. pump_performance IP fl hh pp = Inr p \<and>
           hydraulic_power p = fl * hh * (62.4 * 1.3558) * 32.174 / 1000 \<and>
           efficiency p = (hydraulic_power p / pp) * 100)) \<and>
   pump_performance SI 0.02 30 6 = Inr \<lparr>hydraulic_power = 5.886, efficiency = 98.1\<rparr>"
  by (simp add: pump_performance_def py_div_def density_def g_def Let_def)

text \<open>
  The theorem of claim C7 at concrete inputs.
\<close>

theorem pump_formulas_witness:
  "(4::real) \<noteq> 0 \<and>
   pump_performance SI 0.01 20 4 = Inr \<lparr>hydraulic_power = 1.962, efficiency = 49.05\<rparr> \<and>
   pump_performance IP 0.01 20 4 =
     Inr \<lparr>hydraulic_power = 0.01 * 20 * (62.4 * 1.3558) * 32.174 / 1000,
          efficiency = 0.01 * 20 * (62.4 * 1.3558) * 32.174 / 1000 / 4 * 100\<rparr>"
  using pump_formulas [of 4 "0.01" 20] by auto

text \<open>
  Claim C9. With a non-zero pump power the pump section never fails, whatever the unit
  system, the flow and the head are. A zero flow or a zero head is accepted and gives a
  hydraulic power of \<open>0\<close> and an efficiency of \<open>0\<close>.
\<close>

theorem pump_never_fails:
  assumes "pp \<noteq> 0"
  shows "(\<exists>p. pump_performance u fl hh pp = Inr p) \<and>
         pump_performance u 0 hh pp = Inr \<lparr>hydraulic_power = 0, efficiency = 0\<rparr> \<and>
         pump_performance u fl 0 pp = Inr \<lparr>hydraulic_power = 0, efficiency = 0\<rparr>"
  using assms by (simp add: pump_performance_def py_div_nonzero Let_def)

text \<open>
  The theorem of claim C9 at concrete inputs.
\<close>

theorem pump_never_fails_witness:
  "(6::real) \<noteq> 0 \<and>
   (\<exists>p. pump_performance IP 0.02 30 6 = Inr p) \<and>
   pump_performance IP 0 30 6 = Inr \<lparr>hydraulic_power = 0, efficiency = 0\<rparr> \<and>
   pump_performance IP 0.02 0 6 = Inr \<lparr>hydraulic_power = 0, efficiency = 0\<rparr>"
  using pump_never_fails [of 6 IP "0.02" 30] by simp

subsection \<open>Tower formulas\<close>

text \<open>
  Claim C6. Whenever range plus approach is non-zero, the tower section succeeds with
  range equal to inlet minus outlet temperature, approach equal to outlet temperature
  minus wet bulb, and an effectiveness whose percentage \<open>effectiveness * 100\<close> is
  \<open>range / (range + approach) * 100\<close>. Nothing else is required of the inputs: an outlet
  warmer than the inlet is accepted. On \<open>(35, 30, 28)\<close> the range is \<open>5\<close>, the approach
  is \<open>2\<close> and the percentage, rounded to two decimals as it is shown, is \<open>71.43\<close>.
\<close>

theorem tower_formulas:
  "((ci - co) + (co - wb) \<noteq> 0 \<longrightarrow>
      (\<exists>t. tower_performance ci co wb = Inr t \<and>
           range_cw t = ci - co \<and>
           approach t = co - wb \<and>
           effectiveness t * 100 = range_cw t / (range_cw t + approach t) * 100)) \<and>
   tower_performance 35 30 28 = Inr \<lparr>range_cw = 5, approach = 2, effectiveness = 5 / 7\<rparr> \<and>
   py_round (5 / 7 * 100) 2 = 71.43"
  by (simp add: tower_performance_def py_div_def py_round_def round_half_even_def Let_def)

text \<open>
  The theorem of claim C6 at concrete inputs.
\<close>

theorem tower_formulas_witness:
  "(30 - 35) + (35 - 28) \<noteq> (0::real) \<and>
   tower_performance 30 35 28 = Inr \<lparr>range_cw = - 5, approach = 7, effectiveness = - 5 / 2\<rparr>"
  using tower_formulas [of 30 35 28] by auto

subsection \<open>Part-load value\<close>

text \<open>
  Claim C2, as amended. \<open>calc_iplv\<close> works in double precision. For four non-zero values
  it divides the doubles of the weights \<open>0.01, 0.42, 0.45, 0.12\<close> by the values, position by
  position, and adds the four quotients from the left; if that sum is zero it raises, and
  otherwise it returns the reciprocal of the sum rounded to three decimal places: the
  double nearest to a multiple of \<open>0.001\<close>, which lies within \<open>0.0005\<close> of the reciprocal it
  has computed. On the doubles of \<open>[0.6, 0.65, 0.72, 0.85]\<close> the result is \<open>0.7\<close>, whichever
  way the interpreter adds.
\<close>

theorem calc_iplv_formula:
  "(v1 \<noteq> 0 \<and> v2 \<noteq> 0 \<and> v3 \<noteq> 0 \<and> v4 \<noteq> 0 \<longrightarrow>
      (\<exists>s. s = float_sum k [fl64 (fl64 0.01 / v1), fl64 (fl64 0.42 / v2),
                              fl64 (fl64 0.45 / v3), fl64 (fl64 0.12 / v4)] \<and>
           (s = 0 \<longrightarrow> calc_iplv k [v1, v2, v3, v4] = Inl ZeroDivisionError) \<and>
           (s \<noteq> 0 \<longrightarrow>
              (\<exists>n. calc_iplv k [v1, v2, v3, v4] = Inr (fl64 (of_int n / 1000)) \<and>
                   \<bar>of_int n / 1000 - fl64 (1 / s)\<bar> \<le> 0.0005)))) \<and>
   float_sum Sequential [q1, q2, q3, q4] = fl64 (fl64 (fl64 (fl64 (0 + q1) + q2) + q3) + q4) \<and>
   calc_iplv k [fl64 0.6, fl64 0.65, fl64 0.72, fl64 0.85] = Inr (fl64 0.7)"
proof (intro conjI impI)
  assume nz: "v1 \<noteq> 0 \<and> v2 \<noteq> 0 \<and> v3 \<noteq> 0 \<and> v4 \<noteq> 0"
  define s where "s = float_sum k [fl64 (fl64 0.01 / v1), fl64 (fl64 0.42 / v2),
                                   fl64 (fl64 0.45 / v3), fl64 (fl64 0.12 / v4)]"
  define r where "r = fl64 (1 / s)"
  have zero: "s = 0 \<longrightarrow> calc_iplv k [v1, v2, v3, v4] = Inl ZeroDivisionError"
    by (simp add: calc_iplv_4 s_def)
  have run: "s \<noteq> 0 \<longrightarrow> calc_iplv k [v1, v2, v3, v4] = Inr (round_float r 3)"
    using nz by (simp add: calc_iplv_4 s_def r_def)
  obtain n :: int where grid: "py_round r 3 = of_int n / 10 ^ 3"
    using py_round_grid by blast
  then have grid': "py_round r 3 = of_int n / 1000"
    by simp
  have "\<bar>py_round r 3 - r\<bar> \<le> 0.0005"
    using py_round_close [of r 3] by simp
  then have close: "\<bar>of_int n / 1000 - r\<bar> \<le> 0.0005"
    unfolding grid' .
  from run grid' have run': "s \<noteq> 0 \<longrightarrow> calc_iplv k [v1, v2, v3, v4] = Inr (fl64 (of_int n / 1000))"
    by (simp add: round_float_def)
  show "\<exists>s. s = float_sum k [fl64 (fl64 0.01 / v1), fl64 (fl64 0.42 / v2),
                              fl64 (fl64 0.45 / v3), fl64 (fl64 0.12 / v4)] \<and>
           (s = 0 \<longrightarrow> calc_iplv k [v1, v2, v3, v4] = Inl ZeroDivisionError) \<and>
           (s \<noteq> 0 \<longrightarrow>
              (\<exists>n. calc_iplv k [v1, v2, v3, v4] = Inr (fl64 (of_int n / 1000)) \<and>
                   \<bar>of_int n / 1000 - fl64 (1 / s)\<bar> \<le> 0.0005))"
  proof (intro exI conjI)
    show "s = float_sum k [fl64 (fl64 0.01 / v1), fl64 (fl64 0.42 / v2),
                           fl64 (fl64 0.45 / v3), fl64 (fl64 0.12 / v4)]"
      by (rule s_def)
    show "s = 0 \<longrightarrow> calc_iplv k [v1, v2, v3, v4] = Inl ZeroDivisionError"
      by (rule zero)
    show "s \<noteq> 0 \<longrightarrow>
      (\<exists>n. calc_iplv k [v1, v2, v3, v4] = Inr (fl64 (of_int n / 1000)) \<and>
           \<bar>of_int n / 1000 - fl64 (1 / s)\<bar> \<le> 0.0005)"
      using run' close unfolding r_def by blast
  qed
next
  show "float_sum Sequential [q1, q2, q3, q4] = fl64 (fl64 (fl64 (fl64 (0 + q1) + q2) + q3) + q4)"
    by (rule float_sum_Sequential_4)
next
  show "calc_iplv k [fl64 0.6, fl64 0.65, fl64 0.72, fl64 0.85] = Inr (fl64 0.7)"
    by (cases k) (simp_all only: iplv_default_Sequential iplv_default_Compensated)
qed

text \<open>
  The theorem of claim C2 at concrete inputs.
\<close>

theorem calc_iplv_formula_witness:
  "(1::real) \<noteq> 0 \<and> (2::real) \<noteq> 0 \<and> (4::real) \<noteq> 0 \<and> (8::real) \<noteq> 0 \<and>
   float_sum Compensated [fl64 (fl64 0.01 / 1), fl64 (fl64 0.42 / 2),
                          fl64 (fl64 0.45 / 4), fl64 (fl64 0.12 / 8)] \<noteq> 0 \<and>
   (\<exists>n. calc_iplv Compensated [1, 2, 4, 8] = Inr (fl64 (of_int n / 1000))) \<and>
   calc_iplv Compensated [1, 2, 4, 8] = Inr (fl64 2.878)"
proof -
  have run: "calc_iplv Compensated [1, 2, 4, 8] = Inr (fl64 2.878)"
    by (rule iplv_1248_Compensated)
  then have nz: "float_sum Compensated [fl64 (fl64 0.01 / 1), fl64 (fl64 0.42 / 2),
      fl64 (fl64 0.45 / 4), fl64 (fl64 0.12 / 8)] \<noteq> 0"
    by (auto simp: calc_iplv_4 Let_def split: if_splits)
  from calc_iplv_formula [of 1 2 4 8 Compensated 0 0 0 0] nz
  have "\<exists>n. calc_iplv Compensated [1, 2, 4, 8] = Inr (fl64 (of_int n / 1000))"
    by auto
  with run nz show ?thesis
    by simp
qed

text \<open>
  The claim as it was stated fails twice: the value on \<open>[0.6, 0.65, 0.72, 0.85]\<close> is
  not \<open>0.702\<close>, and four non-zero values do not guarantee a result.
\<close>

theorem calc_iplv_formula_counterexample:
  "calc_iplv Sequential [fl64 0.6, fl64 0.65, fl64 0.72, fl64 0.85] \<noteq> Inr (fl64 0.702) \<and>
   calc_iplv Compensated [fl64 0.6, fl64 0.65, fl64 0.72, fl64 0.85] \<noteq> Inr (fl64 0.702) \<and>
   fl64 0.01 \<noteq> 0 \<and> fl64 0.42 \<noteq> 0 \<and> - fl64 0.45 \<noteq> 0 \<and> - fl64 0.12 \<noteq> 0 \<and>
   calc_iplv Sequential [fl64 0.01, fl64 0.42, - fl64 0.45, - fl64 0.12] = Inl ZeroDivisionError \<and>
   calc_iplv Compensated [fl64 0.01, fl64 0.42, - fl64 0.45, - fl64 0.12] = Inl ZeroDivisionError"
proof -
  have a: "fl64 (7 / 10) = 3152519739159347 / 4503599627370496"
    by (simp add: fl64_up [where k = 53] round_half_even_def Let_def)
  have b: "fl64 (351 / 500) = 395190867301761 / 562949953421312"
    by (simp add: fl64_up [where k = 53] round_half_even_def Let_def)
  have ne: "fl64 0.7 \<noteq> fl64 0.702"
    by (simp add: a b)
  show ?thesis
    unfolding iplv_default_Sequential iplv_default_Compensated
      iplv_cancel_Sequential iplv_cancel_Compensated
    using ne by auto
qed

text \<open>
  Claim C10. There are four values, none of them zero, on which \<open>calc_iplv\<close> fails with
  \<open>ZeroDivisionError\<close>: with values of mixed sign the weighted sum can be zero. This is so
  whichever way the interpreter adds, for the real numbers \<open>0.01, 0.42, - 0.45, - 0.12\<close>
  and for the doubles that these four literals denote: the quotients are exactly
  \<open>1, 1, - 1, - 1\<close>.
\<close>

theorem iplv_nonzero_inputs_can_fail:
  "(\<exists>v1 v2 v3 v4 :: real.
     v1 \<noteq> 0 \<and> v2 \<noteq> 0 \<and> v3 \<noteq> 0 \<and> v4 \<noteq> 0 \<and>
     0.01 / v1 + 0.42 / v2 + 0.45 / v3 + 0.12 / v4 = 0 \<and>
     calc_iplv k [v1, v2, v3, v4] = Inl ZeroDivisionError) \<and>
   fl64 0.01 \<noteq> 0 \<and> fl64 0.42 \<noteq> 0 \<and> - fl64 0.45 \<noteq> 0 \<and> - fl64 0.12 \<noteq> 0 \<and>
   calc_iplv k [fl64 0.01, fl64 0.42, - fl64 0.45, - fl64 0.12] = Inl ZeroDivisionError"
proof (intro conjI)
  have "calc_iplv k [1 / 100, 21 / 50, - (9 / 20), - (3 / 25)] = Inl ZeroDivisionError"
    by (cases k) (simp_all only: iplv_cancel_reals_Sequential iplv_cancel_reals_Compensated)
  then show "\<exists>v1 v2 v3 v4 :: real.
     v1 \<noteq> 0 \<and> v2 \<noteq> 0 \<and> v3 \<noteq> 0 \<and> v4 \<noteq> 0 \<and>
     0.01 / v1 + 0.42 / v2 + 0.45 / v3 + 0.12 / v4 = 0 \<and>
     calc_iplv k [v1, v2, v3, v4] = Inl ZeroDivisionError"
    by (intro exI [of _ "1 / 100"] exI [of _ "21 / 50"] exI [of _ "- (9 / 20)"]
        exI [of _ "- (3 / 25)"]) simp
  show "calc_iplv k [fl64 0.01, fl64 0.42, - fl64 0.45, - fl64 0.12] = Inl ZeroDivisionError"
    by (cases k) (simp_all only: iplv_cancel_Sequential iplv_cancel_Compensated)
qed simp_all

subsection \<open>Flow rate\<close>

lemma analyzer_default:
  "\<not> isl (analyzer k default_inputs) \<and>
   Flow_Rate (data (projr (analyzer k default_inputs))) = 1438468618935541 / 36028797018963968 \<and>
   shown_flow_rate (shown (projr (analyzer k default_inputs))) = fl64 0.04"
proof -
  have "\<not> isl (calc_iplv k [fl64 0.6, fl64 0.65, fl64 0.72, fl64 0.85])"
    by (cases k) (simp_all only: iplv_default_Sequential iplv_default_Compensated sum.disc simp_thms)
  then have "analyzer k default_inputs \<noteq> Inl ZeroDivisionError"
    unfolding analyzer_fails
    by (simp add: chiller_fails pump_fails tower_fails flow_fails default_inputs_def)
  then have ok: "\<not> isl (analyzer k default_inputs)"
    by (simp add: only_error)
  then obtain out where out: "analyzer k default_inputs = Inr out"
    by (cases "analyzer k default_inputs") auto
  have fd: "flow_optimization 1000 6 = Inr (1438468618935541 / 36028797018963968)"
    "round_float (1438468618935541 / 36028797018963968) 3 = fl64 0.04"
    using flow_default by blast+
  from analyzer_flow(1) [OF out]
  have "flow_optimization 1000 6 = Inr (Flow_Rate (data out))"
    by (simp add: default_inputs_def)
  with fd(1) have fr: "Flow_Rate (data out) = 1438468618935541 / 36028797018963968"
    by (simp only: sum.inject)
  from analyzer_flow(2) [OF out] have sh: "shown_flow_rate (shown out) = fl64 0.04"
    unfolding fr fd(2) .
  show ?thesis
    unfolding out using fr sh by (simp only: sum.disc sum.sel simp_thms)
qed

text \<open>
  Claim C5, as amended. For a non-zero temperature difference the flow section computes
  \<open>capacity_kw / (4.187 * 997 * delta_T)\<close> in double precision, the product formed from
  the left, with constants that do not depend on the unit system. The value is kept
  unrounded: in every successful run of the script, under either unit system, the export
  row holds exactly this double, and only the message shown to the user holds it rounded
  to three decimal places, that is, the double nearest to a multiple of \<open>0.001\<close> that
  lies within \<open>0.0005\<close> of the exported value.
\<close>

theorem flow_rate_formula:
  "(dt \<noteq> 0 \<longrightarrow>
      flow_optimization cap dt = Inr (fl64 (cap / fl64 (fl64 (fl64 4.187 * 997) * dt)))) \<and>
   (analyzer k i = Inr out \<longrightarrow>
      delta_T i \<noteq> 0 \<and>
      Flow_Rate (data out) =
        fl64 (capacity_kw i / fl64 (fl64 (fl64 4.187 * 997) * delta_T i)) \<and>
      (\<exists>n. shown_flow_rate (shown out) = fl64 (of_int n / 1000) \<and>
           \<bar>of_int n / 1000 - Flow_Rate (data out)\<bar> \<le> 0.0005))"
proof (intro conjI impI)
  assume "dt \<noteq> 0"
  then show "flow_optimization cap dt = Inr (fl64 (cap / fl64 (fl64 (fl64 4.187 * 997) * dt)))"
    by (simp add: flow_optimization_def float_div_def cp_def density_si_def)
next
  assume run: "analyzer k i = Inr out"
  let ?fr = "Flow_Rate (data out)"
  from analyzer_flow(1) [OF run] have fr: "flow_optimization (capacity_kw i) (delta_T i) = Inr ?fr" .
  then show nz: "delta_T i \<noteq> 0"
    using flow_fails [of "capacity_kw i" "delta_T i"] by auto
  with fr show "?fr = fl64 (capacity_kw i / fl64 (fl64 (fl64 4.187 * 997) * delta_T i))"
    by (simp add: flow_optimization_def float_div_def cp_def density_si_def)
  obtain n :: int where grid: "py_round ?fr 3 = of_int n / 10 ^ 3"
    using py_round_grid by blast
  then have grid': "py_round ?fr 3 = of_int n / 1000"
    by simp
  have "\<bar>py_round ?fr 3 - ?fr\<bar> \<le> 0.0005"
    using py_round_close [of ?fr 3] by simp
  then have "\<bar>of_int n / 1000 - ?fr\<bar> \<le> 0.0005"
    unfolding grid' .
  moreover from analyzer_flow(2) [OF run] grid'
  have "shown_flow_rate (shown out) = fl64 (of_int n / 1000)"
    by (simp add: round_float_def)
  ultimately show "\<exists>n. shown_flow_rate (shown out) = fl64 (of_int n / 1000) \<and>
      \<bar>of_int n / 1000 - ?fr\<bar> \<le> 0.0005"
    by blast
qed

text \<open>
  The claim as it was stated fails on the default inputs: the flow rate that is computed
  and exported is not the double of its rounding \<open>0.04\<close>; only the message holds that.
\<close>

theorem flow_rate_formula_counterexample:
  "flow_optimization 1000 6 = Inr (1438468618935541 / 36028797018963968) \<and>
   round_float (1438468618935541 / 36028797018963968) 3 = fl64 0.04 \<and>
   (1438468618935541 / 36028797018963968) \<noteq> fl64 0.04 \<and>
   \<not> isl (analyzer Sequential default_inputs) \<and>
   Flow_Rate (data (projr (analyzer Sequential default_inputs))) = 1438468618935541 / 36028797018963968 \<and>
   shown_flow_rate (shown (projr (analyzer Sequential default_inputs))) = fl64 0.04 \<and>
   \<not> isl (analyzer Compensated default_inputs) \<and>
   Flow_Rate (data (projr (analyzer Compensated default_inputs))) = 1438468618935541 / 36028797018963968"
  using flow_default analyzer_default [of Sequential] analyzer_default [of Compensated]
  by simp

text \<open>
  The theorem of claim C5 at concrete inputs.
\<close>

theorem flow_rate_formula_witness:
  "(6::real) \<noteq> 0 \<and>
   flow_optimization 1000 6 = Inr (fl64 (1000 / fl64 (fl64 (fl64 4.187 * 997) * 6))) \<and>
   \<not> isl (analyzer Sequential default_inputs) \<and>
   Flow_Rate (data (projr (analyzer Sequential default_inputs))) =
     fl64 (1000 / fl64 (fl64 (fl64 4.187 * 997) * 6)) \<and>
   (\<exists>n. shown_flow_rate (shown (projr (analyzer Sequential default_inputs))) =
        fl64 (of_int n / 1000))"
proof -
  have ok: "\<not> isl (analyzer Sequential default_inputs)"
    using analyzer_default [of Sequential] by simp
  then have out: "analyzer Sequential default_inputs = Inr (projr (analyzer Sequential default_inputs))"
    by simp
  from flow_rate_formula [of 6 1000 Sequential default_inputs
      "projr (analyzer Sequential default_inputs)"] out ok
  show ?thesis
    by (auto simp: default_inputs_def)
qed

subsection \<open>COP against load\<close>

text \<open>
  Claim C8. For a positive COP, the curve has one value for each load, computed from that
  load alone as \<open>cop * (1 - 0.1 * (1 - load / 100))\<close>. Over the loads of the script,
  \<open>[25, 50, 75, 100]\<close>, the values are strictly increasing, and the value at the load \<open>100\<close>
  is the COP itself.
\<close>

theorem cop_curve:
  assumes "0 < c"
  shows "length (cop_values c ls) = length ls \<and>
         (\<forall>k<length ls. cop_values c ls ! k = c * (1 - 0.1 * (1 - of_int (ls ! k) / 100))) \<and>
         cop_values c loads = [c * 0.925, c * 0.95, c * 0.975, c] \<and>
         sorted_wrt (<) (cop_values c loads) \<and>
         last loads = 100 \<and> last (cop_values c loads) = c"
  using assms by (simp add: cop_values_def loads_def)

text \<open>
  The theorem of claim C8 at concrete inputs.
\<close>

theorem cop_curve_witness:
  "(0::real) < 5 \<and> cop_values 5 [25, 50, 75, 100] = [4.625, 4.75, 4.875, 5] \<and>
   sorted_wrt (<) (cop_values 5 loads) \<and> last (cop_values 5 loads) = 5"
  using cop_curve [of 5 "[25, 50, 75, 100]"] by (simp add: loads_def)

end
